theory Spec2Isabelle
  imports Main "HOL-Library.Sublist" "HOL-Library.AList"
begin

section \<open>Python primitives used by the handlers\<close>

text \<open>
  The service is Python 2: a \<open>str\<close> is a byte string, so file contents, file names
  and header values are all \<^typ>\<open>string\<close>. Exceptions are values; only the classes
  that some \<open>except\<close> clause of the handlers tells apart are distinguished.
\<close>

type_synonym bytes = string
type_synonym path = string

datatype pyerr =
    Exception | OSError | IOError | TypeError | AttributeError | UnboundLocalError
  | IndexError | ValueError | KeyError | AssertionError | MissingArgumentError

text \<open>\<open>sub in s\<close> on strings: \<open>sub\<close> occurs in \<open>s\<close> as a contiguous substring.\<close>

fun py_in :: "string \<Rightarrow> string \<Rightarrow> bool" where
  "py_in sub [] = (sub = [])"
| "py_in sub (c # cs) = (prefix sub (c # cs) \<or> py_in sub cs)"

text \<open>
  \<open>s.split(sep)\<close>: the pieces between the occurrences of \<open>sep\<close>, found from the left
  and not overlapping. Every call in the handlers passes a non-empty literal separator
  (Python raises on an empty one); with an empty separator the model returns \<open>[s]\<close>.
\<close>

function split_from :: "string \<Rightarrow> string \<Rightarrow> string \<Rightarrow> string list" where
  "split_from sep cur [] = [cur]"
| "split_from sep cur (c # cs) =
     (if sep \<noteq> [] \<and> prefix sep (c # cs)
      then cur # split_from sep [] (drop (length sep) (c # cs))
      else split_from sep (cur @ [c]) cs)"
  by pat_completeness auto
termination
  by (relation "measure (\<lambda>(sep, cur, s). length s)") auto

definition py_split :: "string \<Rightarrow> string \<Rightarrow> string list" where
  "py_split sep s = split_from sep [] s"

text \<open>\<open>s.replace(old, new)\<close>: every occurrence, from the left, not overlapping.\<close>

function py_replace :: "string \<Rightarrow> string \<Rightarrow> string \<Rightarrow> string" where
  "py_replace old new [] = []"
| "py_replace old new (c # cs) =
     (if old \<noteq> [] \<and> prefix old (c # cs)
      then new @ py_replace old new (drop (length old) (c # cs))
      else c # py_replace old new cs)"
  by pat_completeness auto
termination
  by (relation "measure (\<lambda>(old, new, s). length s)") auto

text \<open>\<open>os.path.basename(p)\<close>: what follows the last slash.\<close>

definition basename :: "path \<Rightarrow> string" where
  "basename p = last (py_split ''/'' p)"

text \<open>
  \<open>int(s)\<close> on a string: an optionally signed decimal literal, \<open>ValueError\<close> (here
  \<open>None\<close>) otherwise. The surrounding white space that Python also accepts is not
  modelled.
\<close>

fun index_of :: "'a \<Rightarrow> 'a list \<Rightarrow> nat option" where
  "index_of x [] = None"
| "index_of x (y # ys) = (if x = y then Some 0 else map_option Suc (index_of x ys))"

definition digit_val :: "char \<Rightarrow> nat option" where
  "digit_val c = index_of c ''0123456789''"

fun digits_val :: "nat \<Rightarrow> string \<Rightarrow> nat option" where
  "digits_val acc [] = Some acc"
| "digits_val acc (c # cs) =
     (case digit_val c of None \<Rightarrow> None | Some d \<Rightarrow> digits_val (10 * acc + d) cs)"

definition py_int :: "string \<Rightarrow> int option" where
  "py_int s =
     (case s of
        [] \<Rightarrow> None
      | c # cs \<Rightarrow>
          if c = CHR ''-'' then (if cs = [] then None else map_option (\<lambda>n. - int n) (digits_val 0 cs))
          else if c = CHR ''+'' then (if cs = [] then None else map_option int (digits_val 0 cs))
          else map_option int (digits_val 0 s))"

text \<open>\<open>str(n)\<close> on an integer.\<close>

definition digit_char :: "nat \<Rightarrow> char" where
  "digit_char d = ''0123456789'' ! d"

fun str_nat :: "nat \<Rightarrow> string" where
  "str_nat n = (if n < 10 then [digit_char n] else str_nat (n div 10) @ [digit_char (n mod 10)])"

declare str_nat.simps [simp del]

definition py_str :: "int \<Rightarrow> string" where
  "py_str i = (if i < 0 then CHR ''-'' # str_nat (nat (- i)) else str_nat (nat i))"


section \<open>The file system\<close>

text \<open>
  A file system is an association list from absolute or relative path names to nodes, a
  directory being an entry of its own; the entries below a directory \<open>d\<close> are the paths
  that start with \<open>d/\<close>. What \<open>os.stat\<close> reports beyond the size of a regular file (the
  modification time, the size of a directory entry) is kept in a separate record, since
  no operation of the handlers sets it.
\<close>

datatype node = File bytes | Dir

type_synonym filesys = "(path \<times> node) list"

record meta =
  mtime_of :: "path \<Rightarrow> nat"
  dirsize_of :: "path \<Rightarrow> nat"

record stat =
  st_size :: nat
  st_mtime :: nat

definition lexists :: "filesys \<Rightarrow> path \<Rightarrow> bool" where
  "lexists fs p = (map_of fs p \<noteq> None)"

definition isdir :: "filesys \<Rightarrow> path \<Rightarrow> bool" where
  "isdir fs p = (map_of fs p = Some Dir)"

definition os_stat :: "meta \<Rightarrow> filesys \<Rightarrow> path \<Rightarrow> pyerr + stat" where
  "os_stat mt fs p =
     (case map_of fs p of
        None \<Rightarrow> Inl OSError
      | Some (File b) \<Rightarrow> Inr \<lparr>st_size = length b, st_mtime = mtime_of mt p\<rparr>
      | Some Dir \<Rightarrow> Inr \<lparr>st_size = dirsize_of mt p, st_mtime = mtime_of mt p\<rparr>)"

text \<open>\<open>fd.read(n)\<close> at offset \<open>pos\<close>: at most \<open>n\<close> bytes, everything left when \<open>n < 0\<close>.\<close>

definition fd_read :: "bytes \<Rightarrow> nat \<Rightarrow> int \<Rightarrow> bytes" where
  "fd_read content pos n = (if n < 0 then drop pos content else take (nat n) (drop pos content))"


section \<open>FileStreamerHandler: serving a file\<close>

record policy =
  enabled :: bool
  allowed_mime_types :: "string list"
  max_size :: "nat option"

text \<open>
  What the handler takes from the configuration and from modules that are not part of
  the handlers' file: \<open>check_filename\<close> (\<open>None\<close> when it raises), libmagic's
  \<open>from_file\<close>, \<open>hashlib.md5(...).hexdigest()\<close> and \<open>str\<close> of a modification time.
\<close>

record dl_env =
  check_filename :: "string \<Rightarrow> string option"
  magic_from_file :: "path \<Rightarrow> string"
  md5_hexdigest :: "string \<Rightarrow> string"
  str_mtime :: "nat \<Rightarrow> string"
  export_dir :: path
  export_policy :: "(string \<times> policy) list"
  export_max_size :: nat
  CHUNK_SIZE :: int

text \<open>
  \<open>validate_token\<close> either returns the claims, of which the handlers use the user, or
  raises after it has set the status of the response.
\<close>

datatype auth = Auth_rejected nat | Auth_ok string

record dl_request =
  rq_auth :: auth
  rq_pnum :: string
  rq_pnum_valid :: bool
  rq_filename :: string
  rq_range :: "string option"
  rq_if_range :: "string option"

text \<open>
  The response: the status (Tornado starts every handler at 200), the two headers the
  handler sets, the file bytes written so far, and the JSON \<open>{'message': ...}\<close> that
  the \<open>except\<close> clause of \<open>get\<close> writes.
\<close>

record dl_response =
  resp_status :: nat
  resp_content_type :: "string option"
  resp_content_length :: "int option"
  resp_body :: bytes
  resp_message :: "string option"

definition tornado_default_status :: nat where
  "tornado_default_status = 200"

definition new_response :: dl_response where
  "new_response = \<lparr>resp_status = tornado_default_status, resp_content_type = None,
     resp_content_length = None, resp_body = [], resp_message = None\<rparr>"

text \<open>
  \<open>enforce_export_policy\<close> returns \<open>(status, mime_type, size)\<close> and may replace
  \<open>self.message\<close>; the model returns the triple (\<open>None\<close> when \<open>os.stat\<close> or the lookup
  of the default policy raises) together with the message.
\<close>

definition enforce_export_policy ::
  "dl_env \<Rightarrow> meta \<Rightarrow> filesys \<Rightarrow> string \<Rightarrow> path \<Rightarrow> string
     \<Rightarrow> (bool \<times> string option \<times> nat option) option \<times> string" where
  "enforce_export_policy ev mt fs msg filename pnum =
     (case check_filename ev (basename filename) of
        None \<Rightarrow> (Some (False, None, None), ''Illegal export filename: '' @ filename)
      | Some _ \<Rightarrow>
          let mime_type = magic_from_file ev filename in
          (case os_stat mt fs filename of
             Inl _ \<Rightarrow> (None, msg)
           | Inr st \<Rightarrow>
               let fsize = st_size st in
               (case (case map_of (export_policy ev) pnum of
                        Some p \<Rightarrow> Some p
                      | None \<Rightarrow> map_of (export_policy ev) ''default'') of
                  None \<Rightarrow> (None, msg)
                | Some pol \<Rightarrow>
                    if \<not> enabled pol then (Some (True, Some mime_type, Some fsize), msg)
                    else
                      let (status1, msg1) =
                            (if ''*'' \<in> set (allowed_mime_types pol) then (True, msg)
                             else if mime_type \<in> set (allowed_mime_types pol) then (True, msg)
                             else (False, ''not allowed to export file with MIME type: '' @ mime_type))
                      in (case max_size pol of
                            None \<Rightarrow> (Some (status1, Some mime_type, Some fsize), msg1)
                          | Some mx \<Rightarrow>
                              if mx \<noteq> 0 \<and> fsize > mx
                              then (Some (False, Some mime_type, Some fsize),
                                    ''File size exceeds maximum allowed for '' @ pnum @ '': ''
                                      @ py_str (int (export_max_size ev div 1024 div 1024 div 1024))
                                      @ '' Gigabyte'')
                              else (Some (status1, Some mime_type, Some fsize), msg1)))))"

text \<open>\<open>compute_etag\<close>: \<open>None\<close> when there is no file path or \<open>os.stat\<close> raises.\<close>

definition compute_etag :: "dl_env \<Rightarrow> meta \<Rightarrow> filesys \<Rightarrow> path option \<Rightarrow> string option" where
  "compute_etag ev mt fs filepath =
     (case filepath of
        None \<Rightarrow> None
      | Some p \<Rightarrow>
          if p = [] then None
          else (case os_stat mt fs p of
                  Inl _ \<Rightarrow> None
                | Inr st \<Rightarrow> Some (md5_hexdigest ev (str_mtime ev (st_mtime st)))))"

text \<open>
  The two copy loops of \<open>get\<close>. \<open>data\<close> is the chunk read last, \<open>pos\<close> the offset of
  the file object, \<open>out\<close> what has been written to the response.
\<close>

function whole_loop :: "bytes \<Rightarrow> int \<Rightarrow> bytes \<Rightarrow> nat \<Rightarrow> bytes \<Rightarrow> bytes" where
  "whole_loop content cs data pos out =
     (if data \<noteq> []
      then (let data' = fd_read content pos cs
            in whole_loop content cs data' (pos + length data') (out @ data))
      else out)"
  by pat_completeness auto
termination
  by (relation "measure (\<lambda>(content, cs, data, pos, out).
        (length content - pos) + (if data = [] then 0 else 1))")
     (auto simp: fd_read_def split: if_splits)

function range_loop :: "bytes \<Rightarrow> int \<Rightarrow> int \<Rightarrow> bytes \<Rightarrow> nat \<Rightarrow> int \<Rightarrow> bytes \<Rightarrow> bytes" where
  "range_loop content cs btr data pos sent out =
     (if data \<noteq> [] \<and> sent \<le> btr
      then (let data' = fd_read content pos cs
            in range_loop content cs btr data' (pos + length data') (sent + cs) (out @ data))
      else out)"
  by pat_completeness auto
termination
  by (relation "measure (\<lambda>(content, cs, btr, data, pos, sent, out).
        (length content - pos) + (if data = [] then 0 else 1))")
     (auto simp: fd_read_def split: if_splits)

declare whole_loop.simps [simp del] range_loop.simps [simp del]

text \<open>
  The branch of \<open>get\<close> for a request with a \<open>Range\<close> header, in two parts:
  \<open>stream_range\<close> is the code from \<open>bytes_to_read = ...\<close> on, \<open>serve_range\<close> the parsing
  of the header before it. \<open>fcontent\<close> is the content of the file, \<open>None\<close> when \<open>open\<close>
  raises (a directory). \<open>Inl\<close> is a raise, with the response as it stands and the
  message that \<open>get\<close> will write.
\<close>

definition stream_range ::
  "int \<Rightarrow> bytes option \<Rightarrow> int \<Rightarrow> int \<Rightarrow> string \<Rightarrow> dl_response
     \<Rightarrow> (dl_response \<times> string) + dl_response" where
  "stream_range chunk_size fcontent client_start client_end msg r =
     (let bytes_to_read = client_end - client_start + 1;
          r1 = r\<lparr>resp_content_length := Some bytes_to_read\<rparr>
      in case fcontent of
           None \<Rightarrow> Inl (r1, msg)
         | Some content \<Rightarrow>
             if client_start < 0 then Inl (r1, msg)
             else
               let pos = nat client_start;
                   cs = (if chunk_size > bytes_to_read then bytes_to_read else chunk_size);
                   data = fd_read content pos cs
               in Inr (r1\<lparr>resp_body := range_loop content cs bytes_to_read data
                                     (pos + length data) (0 + cs) []\<rparr>))"

definition serve_range ::
  "int \<Rightarrow> int \<Rightarrow> bytes option \<Rightarrow> string \<Rightarrow> string \<Rightarrow> dl_response
     \<Rightarrow> (dl_response \<times> string) + dl_response" where
  "serve_range chunk_size full_file_size fcontent client_byte_index_range msg r =
     (let start_and_end = py_split ''-'' (last (py_split ''='' client_byte_index_range))
      in if '','' \<in> set start_and_end
         then Inl (r\<lparr>resp_status := 405\<rparr>, ''Multipart byte range requests not supported'')
         else
           (case py_int (start_and_end ! 0) of
              None \<Rightarrow> Inl (r, msg)
            | Some client_start \<Rightarrow>
                let client_end =
                      (if length start_and_end < 2 then full_file_size - 1
                       else (case py_int (start_and_end ! 1) of
                               None \<Rightarrow> full_file_size - 1
                             | Some e \<Rightarrow> e))
                in if client_end > full_file_size then Inl (r\<lparr>resp_status := 416\<rparr>, msg)
                   else stream_range chunk_size fcontent client_start client_end msg r))"

text \<open>
  \<open>get\<close> for a request that names a file (without a file name \<open>get\<close> lists the
  directory and returns). Every raise ends in the \<open>except\<close> clause, which writes
  \<open>{'message': self.message}\<close> after whatever the response holds already.
\<close>

definition unknown_error :: string where
  "unknown_error = ''Unknown error, please contact TSD''"

definition get_fail :: "dl_response \<Rightarrow> string \<Rightarrow> dl_response" where
  "get_fail r msg = r\<lparr>resp_message := Some msg\<rparr>"

definition get_file :: "dl_env \<Rightarrow> meta \<Rightarrow> filesys \<Rightarrow> dl_request \<Rightarrow> dl_response" where
  "get_file ev mt fs rq =
     (let r = new_response; msg = unknown_error in
      case rq_auth rq of
        Auth_rejected s \<Rightarrow> get_fail (r\<lparr>resp_status := 401\<rparr>) msg
      | Auth_ok user \<Rightarrow>
          if \<not> rq_pnum_valid rq then get_fail r msg
          else
            (case check_filename ev (rq_filename rq) of
               None \<Rightarrow> get_fail (r\<lparr>resp_status := 403\<rparr>)
                 ''Not allowed to access files in sub-directories, create a zip archive''
             | Some secured_filename \<Rightarrow>
                 let filepath = export_dir ev @ ''/'' @ secured_filename in
                 if \<not> lexists fs filepath
                 then get_fail (r\<lparr>resp_status := 404\<rparr>) ''File does not exist''
                 else
                   (case enforce_export_policy ev mt fs msg filepath (rq_pnum rq) of
                      (None, msg1) \<Rightarrow> get_fail (r\<lparr>resp_status := 400\<rparr>) msg1
                    | (Some (ok, mime_type, fsize), msg1) \<Rightarrow>
                        if \<not> ok then get_fail (r\<lparr>resp_status := 400\<rparr>) msg1
                        else
                          let r1 = r\<lparr>resp_content_type := mime_type\<rparr> in
                          (case rq_range rq of
                             None \<Rightarrow>
                               (case map_of fs filepath of
                                  Some (File content) \<Rightarrow>
                                    let data = fd_read content 0 (CHUNK_SIZE ev) in
                                    r1\<lparr>resp_content_length := map_option int fsize,
                                       resp_body := whole_loop content (CHUNK_SIZE ev) data (length data) []\<rparr>
                                | _ \<Rightarrow> get_fail (r1\<lparr>resp_content_length := map_option int fsize\<rparr>) msg1)
                           | Some client_byte_index_range \<Rightarrow>
                               if rq_if_range rq \<noteq> None
                                  \<and> rq_if_range rq \<noteq> compute_etag ev mt fs (Some filepath)
                               then get_fail (r1\<lparr>resp_status := 400\<rparr>)
                                      ''The resource has changed, get everything from the start again''
                               else
                                 (case os_stat mt fs filepath of
                                    Inl _ \<Rightarrow> get_fail r1 msg1
                                  | Inr st \<Rightarrow>
                                      (case serve_range (CHUNK_SIZE ev) (int (st_size st))
                                              (case map_of fs filepath of
                                                 Some (File content) \<Rightarrow> Some content
                                               | _ \<Rightarrow> None)
                                              client_byte_index_range msg1 r1 of
                                         Inl (r2, msg2) \<Rightarrow> get_fail r2 msg2
                                       | Inr r2 \<Rightarrow> r2))))))"

section \<open>File-system operations of the upload side\<close>

text \<open>
  Each operation returns the new file system or the exception Python raises. A new
  entry goes to the end of the list, an existing one is replaced in place
  (\<^const>\<open>AList.update\<close>). Parent directories are taken to exist; \<open>os.path.normpath\<close>
  is the identity on the paths the handlers build.
\<close>

definition os_rename :: "filesys \<Rightarrow> path \<Rightarrow> path \<Rightarrow> pyerr + filesys" where
  "os_rename fs src dst =
     (case map_of fs src of
        None \<Rightarrow> Inl OSError
      | Some (File b) \<Rightarrow>
          if isdir fs dst then Inl OSError
          else Inr (AList.update dst (File b) (AList.delete src fs))
      | Some Dir \<Rightarrow>
          if lexists fs dst then Inl OSError
          else Inr (map (\<lambda>(p, n). if p = src then (dst, n)
                                   else if prefix (src @ ''/'') p then (dst @ drop (length src) p, n)
                                   else (p, n)) fs))"

definition os_remove :: "filesys \<Rightarrow> path \<Rightarrow> pyerr + filesys" where
  "os_remove fs p =
     (case map_of fs p of
        Some (File b) \<Rightarrow> Inr (AList.delete p fs)
      | _ \<Rightarrow> Inl OSError)"

definition rmtree :: "filesys \<Rightarrow> path \<Rightarrow> pyerr + filesys" where
  "rmtree fs d =
     (if isdir fs d then Inr (filter (\<lambda>(p, n). p \<noteq> d \<and> \<not> prefix (d @ ''/'') p) fs)
      else Inl OSError)"

definition os_makedirs :: "filesys \<Rightarrow> path \<Rightarrow> pyerr + filesys" where
  "os_makedirs fs d = (if lexists fs d then Inl OSError else Inr (AList.update d Dir fs))"

text \<open>
  \<open>os.link(src, dst)\<close>: the lock file of a merge. The link is an entry with the content
  the source has at that moment; the handlers never read it and remove it before they
  return.
\<close>

definition os_link :: "filesys \<Rightarrow> path \<Rightarrow> path \<Rightarrow> pyerr + filesys" where
  "os_link fs src dst =
     (case map_of fs src of
        Some (File b) \<Rightarrow> if lexists fs dst then Inl OSError else Inr (AList.update dst (File b) fs)
      | _ \<Rightarrow> Inl OSError)"

text \<open>\<open>os.listdir(d)\<close>: the names directly below \<open>d\<close>, in the order of the entries.\<close>

definition child_name :: "path \<Rightarrow> path \<Rightarrow> string option" where
  "child_name d p =
     (let name = drop (length d + 1) p
      in if prefix (d @ ''/'') p \<and> name \<noteq> [] \<and> CHR ''/'' \<notin> set name then Some name else None)"

definition os_listdir :: "filesys \<Rightarrow> path \<Rightarrow> pyerr + string list" where
  "os_listdir fs d =
     (if isdir fs d then Inr (List.map_filter (child_name d) (map fst fs)) else Inl OSError)"

text \<open>
  \<open>open(p, mode)\<close> for the three modes of the upload side: \<open>'ab'\<close> and \<open>'ab+'\<close> create
  the file or keep its content and write at its end, \<open>'wb+'\<close> creates or empties it.
  Since the handlers write each file from one handle and in one pass, a write is an
  append in either mode.
\<close>

datatype filemode = Ab_plus | Wb_plus

definition os_open :: "filesys \<Rightarrow> path \<Rightarrow> filemode \<Rightarrow> pyerr + filesys" where
  "os_open fs p mode =
     (case map_of fs p of
        None \<Rightarrow> Inr (AList.update p (File []) fs)
      | Some Dir \<Rightarrow> Inl IOError
      | Some (File b) \<Rightarrow>
          (case mode of Ab_plus \<Rightarrow> Inr fs | Wb_plus \<Rightarrow> Inr (AList.update p (File []) fs)))"

definition fs_append :: "filesys \<Rightarrow> path \<Rightarrow> bytes \<Rightarrow> filesys" where
  "fs_append fs p data =
     (case map_of fs p of
        Some (File b) \<Rightarrow> AList.update p (File (b @ data)) fs
      | _ \<Rightarrow> fs)"

text \<open>\<open>f.truncate(n)\<close>: a negative size raises, a size beyond the end pads with zero bytes.\<close>

definition fs_truncate :: "filesys \<Rightarrow> path \<Rightarrow> int \<Rightarrow> pyerr + filesys" where
  "fs_truncate fs p n =
     (case map_of fs p of
        Some (File b) \<Rightarrow>
          if n < 0 then Inl IOError
          else Inr (AList.update p (File (take (nat n) b @ replicate (nat n - length b) (CHR 0x00))) fs)
      | _ \<Rightarrow> Inl IOError)"

definition file_size :: "filesys \<Rightarrow> path \<Rightarrow> pyerr + nat" where
  "file_size fs p =
     (case map_of fs p of
        Some (File b) \<Rightarrow> Inr (length b)
      | _ \<Rightarrow> Inl OSError)"


section \<open>The store of resumable uploads\<close>

text \<open>
  Modelled from the spec: the module \<open>dbresumable\<close> (the functions
  \<open>resumable_db_...\<close> that the handlers import) is not among the sources. The spec's
  ResumableStore keeps, per upload id, the owner, the group and one row
  \<open>(chunk_num, chunk_size)\<close> per received chunk; \<open>total_size\<close> is the sum of the
  recorded sizes. Recording a chunk for an id that was never inserted returns
  \<open>False\<close>.
\<close>

record upload =
  owner :: string
  ugroup :: string
  rows :: "(int \<times> nat) list"

type_synonym store = "(string \<times> upload) list"

definition resumable_db_insert_new_for_user ::
  "store \<Rightarrow> string \<Rightarrow> string \<Rightarrow> string \<Rightarrow> bool \<times> store" where
  "resumable_db_insert_new_for_user rdb upload_id user grp =
     (True, AList.update upload_id \<lparr>owner = user, ugroup = grp, rows = []\<rparr> rdb)"

definition resumable_db_update_with_chunk_info ::
  "store \<Rightarrow> string \<Rightarrow> int \<Rightarrow> nat \<Rightarrow> bool \<times> store" where
  "resumable_db_update_with_chunk_info rdb upload_id chunk_num chunk_size =
     (case map_of rdb upload_id of
        None \<Rightarrow> (False, rdb)
      | Some u \<Rightarrow> (True, AList.update upload_id (u\<lparr>rows := rows u @ [(chunk_num, chunk_size)]\<rparr>) rdb))"

definition resumable_db_get_total_size :: "store \<Rightarrow> string \<Rightarrow> nat" where
  "resumable_db_get_total_size rdb upload_id =
     (case map_of rdb upload_id of
        None \<Rightarrow> 0
      | Some u \<Rightarrow> sum_list (map snd (rows u)))"

definition resumable_db_get_all_resumable_ids_for_user :: "store \<Rightarrow> string \<Rightarrow> string list" where
  "resumable_db_get_all_resumable_ids_for_user rdb user =
     map fst (filter (\<lambda>(i, u). owner u = user) rdb)"

definition resumable_db_upload_belongs_to_user :: "store \<Rightarrow> string \<Rightarrow> string \<Rightarrow> bool" where
  "resumable_db_upload_belongs_to_user rdb upload_id user =
     (case map_of rdb upload_id of
        None \<Rightarrow> False
      | Some u \<Rightarrow> owner u = user)"

definition resumable_db_remove_completed_for_user ::
  "store \<Rightarrow> string \<Rightarrow> string \<Rightarrow> bool \<times> store" where
  "resumable_db_remove_completed_for_user rdb upload_id user =
     (if resumable_db_upload_belongs_to_user rdb upload_id user
      then (True, AList.delete upload_id rdb) else (False, rdb))"

definition resumable_db_get_group :: "store \<Rightarrow> string \<Rightarrow> string option" where
  "resumable_db_get_group rdb upload_id = map_option ugroup (map_of rdb upload_id)"


section \<open>StreamHandler: the handler that writes uploads to disk\<close>

text \<open>
  The state of one request: the world it acts on (\<open>files\<close>, \<open>store\<close>), the response
  under construction (\<open>status_code\<close>, which Tornado starts at 200, the payloads written,
  whether \<open>finish\<close> was called, whether the connection was closed with no answer sent),
  the calls of the request hook, and the attributes the handler keeps on \<open>self\<close>. An attribute that was never assigned is \<open>None\<close>, and so is
  Python's \<open>None\<close> and, for \<open>merged_file\<close>, \<open>False\<close>.
\<close>

record fobj =
  fo_path :: path
  fo_closed :: bool

datatype chunk_id = Chunk_end | Chunk_no int

datatype payload =
    J_message string
  | J_chunk string string "chunk_id option"
  | Error_page

record handler =
  files :: filesys
  store :: store
  status_code :: nat
  written :: "payload list"
  finished :: bool
  connection_closed :: bool
  hook_calls :: "path option list"
  self_resumable_is_complete :: bool
  self_merged_file :: "path option"
  self_target_file :: "fobj option"
  self_custom_content_type :: "string option"
  self_path :: "path option"
  self_path_part :: "path option"
  self_chunk_order_correct :: "bool option"
  self_chunk_num :: "chunk_id option"
  self_upload_id :: "string option"

definition new_handler :: "filesys \<Rightarrow> store \<Rightarrow> handler" where
  "new_handler fs0 rdb0 =
     \<lparr>files = fs0, store = rdb0, status_code = tornado_default_status, written = [],
      finished = False, connection_closed = False, hook_calls = [], self_resumable_is_complete = True,
      self_merged_file = None, self_target_file = None, self_custom_content_type = None,
      self_path = None, self_path_part = None, self_chunk_order_correct = None,
      self_chunk_num = None, self_upload_id = None\<rparr>"

text \<open>
  The configuration and the helpers from other modules: \<open>check_filename\<close> (\<open>None\<close> when
  it raises) and the sort by \<open>natural_keys\<close>, which is taken as a function on the list of
  names.
\<close>

record ul_env =
  ul_check_filename :: "string \<Rightarrow> string option"
  natural_sort :: "string list \<Rightarrow> string list"
  project_dir :: path
  backend :: string
  request_hook_enabled :: bool

datatype http_method = POST | PUT | PATCH | HEAD

text \<open>
  A request as it reaches the handler. The query arguments are taken after
  \<open>url_unescape\<close>; \<open>uuid_part\<close> and \<open>uuid_upload\<close> are the values the two calls of
  \<open>uuid4()\<close> return for this request.
\<close>

record ul_request =
  rq_method :: http_method
  rq_token :: auth
  rq_tenant :: string
  rq_tenant_valid :: bool
  rq_content_type :: "string option"
  rq_uri_filename :: string
  rq_group :: "string option"
  rq_chunk :: "string option"
  rq_id :: "string option"
  uuid_part :: string
  uuid_upload :: string

text \<open>
  The two path names of an upload: the target below the project directory, and the
  name with a fresh UUID and the suffix \<open>.part\<close>.
\<close>

definition join_path :: "path \<Rightarrow> string \<Rightarrow> path" where
  "join_path d name = d @ ''/'' @ name"

definition part_name :: "path \<Rightarrow> string \<Rightarrow> path" where
  "part_name p uuid = p @ ''.'' @ uuid @ ''.part''"

text \<open>
  The names of a resumable upload: the file of one chunk inside the directory of the
  upload, the merged file beside that directory, and its lock.
\<close>

definition chunk_file_name :: "string \<Rightarrow> string \<Rightarrow> string" where
  "chunk_file_name filename chunk_str = filename @ ''.chunk.'' @ chunk_str"

definition merged_name :: "path \<Rightarrow> string \<Rightarrow> string \<Rightarrow> path" where
  "merged_name proj filename upload = proj @ ''/'' @ filename @ ''.'' @ upload"

definition lock_name :: "path \<Rightarrow> path" where
  "lock_name out = out @ ''.lock''"

definition user_of :: "ul_request \<Rightarrow> string" where
  "user_of rq = (case rq_token rq of Auth_ok u \<Rightarrow> u | Auth_rejected s \<Rightarrow> [])"

definition refuse_upload_if_not_in_sequential_order ::
  "ul_env \<Rightarrow> handler \<Rightarrow> path \<Rightarrow> string \<Rightarrow> int \<Rightarrow> (pyerr + unit) \<times> handler" where
  "refuse_upload_if_not_in_sequential_order ev h proj upload chunk_no =
     (case os_listdir (files h) (join_path proj upload) of
        Inl e \<Rightarrow> (Inl e, h)
      | Inr chunks_on_disk \<Rightarrow>
          let full_chunks_on_disk =
                filter (\<lambda>c. \<not> py_in ''.part'' c) (natural_sort ev chunks_on_disk)
          in if full_chunks_on_disk = [] then (Inl IndexError, h)
             else
               (case py_int (last (py_split ''.chunk.'' (last full_chunks_on_disk))) of
                  None \<Rightarrow> (Inl ValueError, h)
                | Some previous_chunk_num \<Rightarrow>
                    if chunk_no \<le> previous_chunk_num \<or> chunk_no - previous_chunk_num \<ge> 2
                    then (Inl Exception, h\<lparr>self_chunk_order_correct := Some False\<rparr>)
                    else (Inr (), h)))"

text \<open>
  The \<open>try\<close> block of \<open>merge_resumables\<close>. \<open>copy_fault = Some k\<close> is an I/O error of
  \<open>shutil.copyfileobj\<close> after \<open>k\<close> bytes of the chunk have reached the merged file,
  \<open>None\<close> a copy that completes. The result says whether the block completed, the value
  of \<open>size_before_merge\<close> if it was assigned, and the world.
\<close>

definition merge_try ::
  "nat option \<Rightarrow> filesys \<Rightarrow> store \<Rightarrow> path \<Rightarrow> path \<Rightarrow> path \<Rightarrow> string \<Rightarrow> int
     \<Rightarrow> bool \<times> nat option \<times> filesys \<times> store" where
  "merge_try copy_fault fs0 rdb0 out out_lock chunk upload chunk_no =
     (case (if chunk_no > 1 then os_link fs0 out out_lock else Inr fs0) of
        Inl e \<Rightarrow> (False, None, fs0, rdb0)
      | Inr fs1 \<Rightarrow>
          (case os_open fs1 out Ab_plus of
             Inl e \<Rightarrow> (False, None, fs1, rdb0)
           | Inr fs2 \<Rightarrow>
               (case map_of fs2 chunk of
                  Some (File c) \<Rightarrow>
                    (case file_size fs2 out of
                       Inl e \<Rightarrow> (False, None, fs2, rdb0)
                     | Inr size_before_merge \<Rightarrow>
                         (case copy_fault of
                            Some k \<Rightarrow>
                              (False, Some size_before_merge, fs_append fs2 out (take k c), rdb0)
                          | None \<Rightarrow>
                              let fs3 = fs_append fs2 out c;
                                  chunk_size = length c;
                                  (ok, rdb1) = resumable_db_update_with_chunk_info
                                                 rdb0 upload chunk_no chunk_size
                              in (ok, Some size_before_merge, fs3, rdb1)))
                | _ \<Rightarrow> (False, None, fs2, rdb0))))"

text \<open>
  The \<open>except\<close> clause of \<open>merge_resumables\<close>: remove the chunk, cut the merged file back.
  \<open>Inl\<close> when the clause itself raises, which is the one case in which
  \<open>merge_resumables\<close> raises \<open>'could not merge'\<close>.
\<close>

definition merge_rollback :: "filesys \<Rightarrow> path \<Rightarrow> path \<Rightarrow> nat option \<Rightarrow> filesys + filesys" where
  "merge_rollback fs0 out chunk size_before_merge =
     (case os_remove fs0 chunk of
        Inl e \<Rightarrow> Inl fs0
      | Inr fs1 \<Rightarrow>
          (case os_open fs1 out Ab_plus of
             Inl e \<Rightarrow> Inl fs1
           | Inr fs2 \<Rightarrow>
               (case size_before_merge of
                  None \<Rightarrow> Inl fs2
                | Some n \<Rightarrow>
                    (case fs_truncate fs2 out (int n) of
                       Inl e \<Rightarrow> Inl fs2
                     | Inr fs3 \<Rightarrow> Inr fs3))))"

definition unlink_quietly :: "filesys \<Rightarrow> path \<Rightarrow> filesys" where
  "unlink_quietly fs0 p = (case os_remove fs0 p of Inl e \<Rightarrow> fs0 | Inr fs1 \<Rightarrow> fs1)"

definition merge_resumables ::
  "nat option \<Rightarrow> handler \<Rightarrow> path \<Rightarrow> string \<Rightarrow> string \<Rightarrow> (pyerr + path) \<times> handler" where
  "merge_resumables copy_fault h proj last_chunk_filename upload =
     (if py_in ''.part'' last_chunk_filename then (Inl AssertionError, h)
      else
        let filename = basename (hd (py_split ''.chunk'' last_chunk_filename));
            out = merged_name proj filename upload;
            out_lock = lock_name out;
            final = py_replace (''.'' @ upload) [] out;
            chunks_dir = join_path proj upload
        in if py_in ''.chunk.end'' last_chunk_filename
           then
             (case os_rename (files h) out final of
                Inl e \<Rightarrow> (Inl e, h)
              | Inr fs1 \<Rightarrow>
                  (Inr final,
                   h\<lparr>files := (case rmtree fs1 chunks_dir of Inl e \<Rightarrow> fs1 | Inr fs2 \<Rightarrow> fs2)\<rparr>))
           else
             (case py_int (last (py_split ''.chunk.'' last_chunk_filename)) of
                None \<Rightarrow> (Inl ValueError, h)
              | Some chunk_no \<Rightarrow>
                  let chunk = join_path chunks_dir last_chunk_filename;
                      (completed, size_before_merge, fs1, rdb1) =
                          merge_try copy_fault (files h) (store h) out out_lock chunk upload chunk_no
                  in (case (if completed then Inr fs1
                            else merge_rollback fs1 out chunk size_before_merge) of
                        Inl fs2 \<Rightarrow>
                          (Inl Exception, h\<lparr>files := unlink_quietly fs2 out_lock, store := rdb1\<rparr>)
                      | Inr fs2 \<Rightarrow>
                          let fs3 = unlink_quietly fs2 out_lock;
                              h1 = h\<lparr>files := fs3, store := rdb1\<rparr>
                          in if chunk_no \<ge> 5
                             then
                               (let old_chunk = py_replace (''.chunk.'' @ py_str chunk_no)
                                                  (''.chunk.'' @ py_str (chunk_no - 4)) chunk
                                in case os_remove fs3 old_chunk of
                                     Inl e \<Rightarrow> (Inl e, h1)
                                   | Inr fs4 \<Rightarrow> (Inr final, h1\<lparr>files := fs4\<rparr>))
                             else (Inr final, h1))))"

text \<open>
  \<open>handle_resumable_request\<close> returns the file name below the project directory,
  Python's \<open>None\<close> when the chunk number is below 1 and no branch returns.
\<close>

definition handle_resumable_request ::
  "ul_env \<Rightarrow> ul_request \<Rightarrow> handler \<Rightarrow> path \<Rightarrow> string
     \<Rightarrow> (pyerr + string option) \<times> handler" where
  "handle_resumable_request ev rq h0 proj filename =
     (let h = h0\<lparr>self_chunk_order_correct := Some True\<rparr> in
      case (rq_chunk rq, rq_id rq, rq_group rq) of
        (Some chunk_str, Some upload, Some grp) \<Rightarrow>
          let chunk_filename = chunk_file_name filename chunk_str in
          if lexists (files h) chunk_filename then (Inl Exception, h)
          else if chunk_str = ''end''
          then
            (let h1 = h\<lparr>self_chunk_num := Some Chunk_end, self_upload_id := Some upload,
                        self_resumable_is_complete := True\<rparr>;
                 filename1 = join_path upload chunk_filename
             in case merge_resumables None h1 proj filename1 upload of
                  (Inl e, h2) \<Rightarrow> (Inl e, h2)
                | (Inr final, h2) \<Rightarrow>
                    (Inr (Some filename1),
                     h2\<lparr>self_merged_file := Some final, self_target_file := None\<rparr>))
          else
            (case py_int chunk_str of
               None \<Rightarrow> (Inl ValueError, h)
             | Some chunk_no \<Rightarrow>
                 if chunk_no = 1
                 then
                   (let h1 = h\<lparr>self_chunk_num := Some (Chunk_no 1),
                               self_upload_id := Some (uuid_upload rq),
                               self_resumable_is_complete := False\<rparr>;
                        filename1 = join_path (uuid_upload rq) chunk_filename
                    in case os_makedirs (files h1) (join_path proj (uuid_upload rq)) of
                         Inl e \<Rightarrow> (Inl e, h1)
                       | Inr fs1 \<Rightarrow>
                           let (ok, rdb1) = resumable_db_insert_new_for_user (store h1)
                                              (uuid_upload rq) (user_of rq) grp;
                               h2 = h1\<lparr>files := fs1, store := rdb1\<rparr>
                           in if ok then (Inr (Some filename1), h2) else (Inl AssertionError, h2))
                 else if chunk_no > 1
                 then
                   (let h1 = h\<lparr>self_chunk_num := Some (Chunk_no chunk_no),
                               self_upload_id := Some upload,
                               self_resumable_is_complete := False\<rparr>;
                        filename1 = join_path upload chunk_filename
                    in case refuse_upload_if_not_in_sequential_order ev h1 proj upload chunk_no of
                         (Inl e, h2) \<Rightarrow> (Inl e, h2)
                       | (Inr u, h2) \<Rightarrow> (Inr (Some filename1), h2))
                 else (Inr None, h))
      | _ \<Rightarrow> (Inl MissingArgumentError, h))"


text \<open>
  How a request ends. \<open>prepare_finish\<close> is the outermost \<open>except\<close> clause of \<open>prepare\<close>;
  \<open>respond_201\<close> the end of a method that returns; \<open>uncaught\<close> is Tornado's answer to
  an exception that leaves a method of the handler: what was written is dropped and an
  error page goes out with status 500.
\<close>

definition prepare_finish :: "handler \<Rightarrow> handler" where
  "prepare_finish h =
     (if self_chunk_order_correct h = Some False
      then h\<lparr>status_code := 200, written := written h @ [J_message ''chunk_order_incorrect''],
             finished := True\<rparr>
      else h\<lparr>written := written h @ [J_message ''stream processing failed''],
             finished := True\<rparr>)"

definition respond_201 :: "handler \<Rightarrow> payload \<Rightarrow> handler" where
  "respond_201 h p = h\<lparr>status_code := 201, written := written h @ [p], finished := True\<rparr>"

definition uncaught :: "handler \<Rightarrow> handler" where
  "uncaught h = h\<lparr>status_code := 500, written := [Error_page], finished := True\<rparr>"

definition close_target :: "handler \<Rightarrow> handler" where
  "close_target h =
     (case self_target_file h of
        None \<Rightarrow> h
      | Some f \<Rightarrow> h\<lparr>self_target_file := Some (f\<lparr>fo_closed := True\<rparr>)\<rparr>)"

text \<open>
  \<open>os.rename(self.path, self.path_part)\<close>, the statement that the handler uses both to
  commit an upload and in its error paths. With an attribute that is still \<open>None\<close>
  Python raises \<open>TypeError\<close>.
\<close>

definition rename_path_to_path_part :: "handler \<Rightarrow> pyerr + handler" where
  "rename_path_to_path_part h =
     (case (self_path h, self_path_part h) of
        (Some p, Some pp) \<Rightarrow>
          (case os_rename (files h) p pp of
             Inl e \<Rightarrow> Inl e
           | Inr fs1 \<Rightarrow> Inr (h\<lparr>files := fs1\<rparr>))
      | _ \<Rightarrow> Inl TypeError)"

definition filemode_of :: "http_method \<Rightarrow> filemode option" where
  "filemode_of m =
     (case m of POST \<Rightarrow> Some Ab_plus | PUT \<Rightarrow> Some Wb_plus | PATCH \<Rightarrow> Some Wb_plus
      | HEAD \<Rightarrow> None)"

text \<open>\<open>self.target_file = open(self.path, filemode)\<close>; no mode was assigned for \<open>HEAD\<close>.\<close>

definition open_target :: "handler \<Rightarrow> filemode option \<Rightarrow> (pyerr + unit) \<times> handler" where
  "open_target h filemode =
     (case (self_path h, filemode) of
        (Some p, Some mode) \<Rightarrow>
          (case os_open (files h) p mode of
             Inl e \<Rightarrow> (Inl e, h)
           | Inr fs1 \<Rightarrow>
               (Inr (), h\<lparr>files := fs1,
                          self_target_file := Some \<lparr>fo_path = p, fo_closed = False\<rparr>\<rparr>))
      | (_, None) \<Rightarrow> (Inl UnboundLocalError, h)
      | (None, _) \<Rightarrow> (Inl TypeError, h))"

text \<open>
  The dispatch on the content type at the end of \<open>prepare\<close>. The decoders are external
  processes (\<open>openssl\<close>, \<open>gunzip\<close>, \<open>tar\<close>): the model records the content type as the
  source does and leaves out what the processes write.
\<close>

definition dispatch_content_type ::
  "handler \<Rightarrow> string \<Rightarrow> filemode option \<Rightarrow> (pyerr + unit) \<times> handler" where
  "dispatch_content_type h content_type filemode =
     (if content_type = ''application/aes''
      then (Inr (), h\<lparr>self_custom_content_type := Some content_type\<rparr>)
      else if content_type = ''application/aes-octet-stream''
      then (Inr (), h\<lparr>self_custom_content_type := Some ''application/aes''\<rparr>)
      else if content_type \<in> set [''application/tar'', ''application/tar.gz'']
      then (Inr (), h\<lparr>self_custom_content_type := Some content_type\<rparr>)
      else if content_type \<in> set [''application/tar.aes'', ''application/tar.gz.aes'']
      then (Inr (), h\<lparr>self_custom_content_type := Some content_type\<rparr>)
      else if content_type = ''application/gz'' \<or> content_type = ''application/gz.aes''
      then open_target (h\<lparr>self_custom_content_type := Some content_type\<rparr>) filemode
      else
        (let h1 = h\<lparr>self_custom_content_type := None\<rparr>
         in if self_merged_file h1 = None then open_target h1 filemode else (Inr (), h1)))"

text \<open>The block of \<open>prepare\<close> whose exceptions reach the clause that renames.\<close>

definition prepare_try :: "ul_env \<Rightarrow> ul_request \<Rightarrow> handler \<Rightarrow> (pyerr + unit) \<times> handler" where
  "prepare_try ev rq h0 =
     (if \<not> rq_tenant_valid rq then (Inl AssertionError, h0)
      else
        let filemode = filemode_of (rq_method rq) in
        (case rq_content_type rq of
           None \<Rightarrow> (Inl Exception, h0)
         | Some content_type \<Rightarrow>
             (case ul_check_filename ev (rq_uri_filename rq) of
                None \<Rightarrow> (Inl Exception, h0)
              | Some filename0 \<Rightarrow>
                  (case (if rq_method rq = PATCH
                         then handle_resumable_request ev rq h0 (project_dir ev) filename0
                         else (Inr (Some filename0), h0)) of
                     (Inl e, h1) \<Rightarrow> (Inl e, h1)
                   | (Inr None, h1) \<Rightarrow> (Inl TypeError, h1)
                   | (Inr (Some filename), h1) \<Rightarrow>
                       let p = join_path (project_dir ev) filename;
                           pp = part_name p (uuid_part rq);
                           h2 = h1\<lparr>self_path := Some p, self_path_part := Some pp\<rparr>
                       in if lexists (files h2) pp then (Inl Exception, h2)
                          else
                            (case (if lexists (files h2) p
                                   then (if isdir (files h2) p then rmtree (files h2) p
                                         else os_rename (files h2) p pp)
                                   else Inr (files h2)) of
                               Inl e \<Rightarrow> (Inl e, h2)
                             | Inr fs1 \<Rightarrow>
                                 dispatch_content_type
                                   (h2\<lparr>files := fs1, self_path := Some pp, self_path_part := Some p\<rparr>)
                                   content_type filemode)))))"

definition prepare :: "ul_env \<Rightarrow> ul_request \<Rightarrow> handler \<Rightarrow> handler" where
  "prepare ev rq h00 =
     (let h0 = h00\<lparr>self_resumable_is_complete := True, self_merged_file := None,
                   self_target_file := None, self_custom_content_type := None,
                   self_path := None, self_path_part := None,
                   self_chunk_order_correct := None\<rparr>
      in case rq_token rq of
           Auth_rejected s \<Rightarrow> prepare_finish (h0\<lparr>status_code := s\<rparr>)
         | Auth_ok u \<Rightarrow>
             (case prepare_try ev rq h0 of
                (Inr u, h1) \<Rightarrow> h1
              | (Inl e, h1) \<Rightarrow>
                  (case rename_path_to_path_part (close_target h1) of
                     Inl e' \<Rightarrow> prepare_finish (close_target h1)
                   | Inr h2 \<Rightarrow> h2)))"

text \<open>
  \<open>self.send_error("something went wrong")\<close>, the last statement of the \<open>except\<close> clause
  of \<open>data_received\<close>. The text stands where \<open>send_error\<close> takes the status code.
  Tornado drops what was written and has no status line for a status that is not a
  number: the call raises before anything is sent, the exception leaves
  \<open>data_received\<close>, and Tornado closes the connection. The request gets no answer, and
  \<open>finish\<close> and \<open>on_finish\<close> do not run.
\<close>

definition send_error_text :: "handler \<Rightarrow> handler" where
  "send_error_text h = h\<lparr>written := [], connection_closed := True\<rparr>"

text \<open>
  \<open>data_received\<close>. \<open>write_fault\<close> says that \<open>self.target_file.write(chunk)\<close> raises an
  I/O error (a full disk); nothing of the chunk is taken to be written then. The
  \<open>except\<close> clause closes the file, renames \<open>self.path\<close> to \<open>self.path_part\<close> and calls
  \<open>send_error\<close>; when the rename raises, that exception leaves \<open>data_received\<close> and the
  connection is closed as well.
\<close>

definition data_received_failed :: "handler \<Rightarrow> handler" where
  "data_received_failed h =
     (let h1 = close_target h
      in case rename_path_to_path_part h1 of
           Inl e \<Rightarrow> h1\<lparr>connection_closed := True\<rparr>
         | Inr h2 \<Rightarrow> send_error_text h2)"

definition data_received :: "handler \<Rightarrow> bytes \<Rightarrow> bool \<Rightarrow> handler" where
  "data_received h chunk write_fault =
     (case self_custom_content_type h of
        Some ct \<Rightarrow> h
      | None \<Rightarrow>
          (case self_target_file h of
             None \<Rightarrow> data_received_failed h
           | Some f \<Rightarrow>
               if fo_closed f \<or> write_fault then data_received_failed h
               else h\<lparr>files := fs_append (files h) (fo_path f) chunk\<rparr>))"

fun receive :: "(bytes \<times> bool) list \<Rightarrow> handler \<Rightarrow> handler" where
  "receive [] h = h"
| "receive ((chunk, write_fault) # rest) h =
     (if connection_closed h then h else receive rest (data_received h chunk write_fault))"

text \<open>\<open>post\<close> and \<open>put\<close> have the same body.\<close>

definition close_and_commit :: "handler \<Rightarrow> handler" where
  "close_and_commit h =
     (case self_target_file h of
        None \<Rightarrow> uncaught h
      | Some f \<Rightarrow>
          (case rename_path_to_path_part (close_target h) of
             Inl e \<Rightarrow> uncaught (close_target h)
           | Inr h1 \<Rightarrow> respond_201 h1 (J_message ''data streamed'')))"

definition post :: "handler \<Rightarrow> handler" where
  "post h =
     (case self_custom_content_type h of
        None \<Rightarrow> close_and_commit h
      | Some ct \<Rightarrow>
          if ct \<in> set [''application/tar'', ''application/tar.gz'', ''application/aes'']
          then (if ct = ''application/aes''
                then (case rename_path_to_path_part h of
                        Inl e \<Rightarrow> uncaught h
                      | Inr h1 \<Rightarrow> respond_201 h1 (J_message ''data streamed''))
                else respond_201 h (J_message ''data streamed''))
          else if ct \<in> set [''application/tar.aes'', ''application/tar.gz.aes'']
          then respond_201 h (J_message ''data streamed'')
          else if ct = ''application/gz'' \<or> ct = ''application/gz.aes''
          then close_and_commit h
          else respond_201 h (J_message ''data streamed''))"

definition put :: "handler \<Rightarrow> handler" where
  "put h = post h"

definition patch :: "nat option \<Rightarrow> ul_env \<Rightarrow> handler \<Rightarrow> handler" where
  "patch copy_fault ev h =
     (case self_merged_file h of
        Some merged \<Rightarrow>
          (case self_upload_id h of
             None \<Rightarrow> uncaught h
           | Some upload \<Rightarrow> respond_201 h (J_chunk (basename merged) upload (self_chunk_num h)))
      | None \<Rightarrow>
          (case (self_target_file h, self_path h, self_path_part h, self_upload_id h) of
             (Some f, Some p, Some pp, Some upload) \<Rightarrow>
               let h1 = close_target h in
               if \<not> lexists (files h1) pp
               then
                 (case os_rename (files h1) p pp of
                    Inl e \<Rightarrow> uncaught h1
                  | Inr fs1 \<Rightarrow>
                      let filename = hd (py_split ''.chunk'' (basename pp))
                      in (case merge_resumables copy_fault (h1\<lparr>files := fs1\<rparr>)
                                 (project_dir ev) (basename pp) upload of
                            (Inl e, h2) \<Rightarrow> uncaught h2
                          | (Inr final, h2) \<Rightarrow>
                              respond_201 h2 (J_chunk filename upload (self_chunk_num h2))))
               else uncaught (h1\<lparr>written := written h1 @ [J_message ''chunk_order_incorrect'']\<rparr>)
           | _ \<Rightarrow> uncaught h))"

definition head :: "handler \<Rightarrow> handler" where
  "head h = h\<lparr>status_code := 201, finished := True\<rparr>"

text \<open>
  \<open>on_finish\<close>, which Tornado calls when the response has been sent. The hook is an
  external command; the model records the path it is called with.
\<close>

definition on_finish :: "ul_env \<Rightarrow> ul_request \<Rightarrow> handler \<Rightarrow> handler" where
  "on_finish ev rq h =
     (case (case self_target_file h of
              None \<Rightarrow> Inr h
            | Some f \<Rightarrow>
                if fo_closed f then Inr h
                else rename_path_to_path_part (close_target h)) of
        Inl e \<Rightarrow> close_target h
      | Inr h1 \<Rightarrow>
          if \<not> self_resumable_is_complete h1 then h1
          else
            (case (case self_merged_file h1 of
                     None \<Rightarrow> Some (self_path_part h1, h1)
                   | Some merged \<Rightarrow>
                       (case self_upload_id h1 of
                          None \<Rightarrow> None
                        | Some upload \<Rightarrow>
                            let (ok, rdb1) = resumable_db_remove_completed_for_user
                                               (store h1) upload (user_of rq)
                            in if ok then Some (Some merged, h1\<lparr>store := rdb1\<rparr>) else None)) of
               None \<Rightarrow> h1
             | Some (hook_path, h2) \<Rightarrow>
                 if backend ev = ''cluster'' \<and> rq_tenant rq \<noteq> ''p01'' then h2
                 else if request_hook_enabled ev
                 then h2\<lparr>hook_calls := hook_calls h2 @ [hook_path]\<rparr>
                 else h2))"

text \<open>
  \<open>on_connection_close\<close>: an open target file is closed and the hook called with
  \<open>self.path\<close>. The test of the backend reads \<open>pnum\<close>, a name that is not bound in this
  method: with the \<open>cluster\<close> backend that is a \<open>NameError\<close>, which leaves the method after
  the file was closed.
\<close>

definition on_connection_close :: "ul_env \<Rightarrow> handler \<Rightarrow> handler" where
  "on_connection_close ev h =
     (case self_target_file h of
        None \<Rightarrow> h
      | Some f \<Rightarrow>
          if fo_closed f then h
          else
            let h1 = close_target h
            in if backend ev = ''cluster'' then h1
               else if request_hook_enabled ev
               then h1\<lparr>hook_calls := hook_calls h1 @ [self_path h1]\<rparr>
               else h1)"

text \<open>
  One request against the handler, as Tornado drives it: \<open>prepare\<close>; unless it finished
  the request, the chunks of the body and then the method; \<open>on_finish\<close> at the end. When
  the connection was closed while the body arrived, the method does not run and
  \<open>on_connection_close\<close> takes the place of \<open>on_finish\<close>.
\<close>

definition run_request ::
  "ul_env \<Rightarrow> ul_request \<Rightarrow> (bytes \<times> bool) list \<Rightarrow> nat option \<Rightarrow> handler \<Rightarrow> handler" where
  "run_request ev rq chunks copy_fault h0 =
     (let h1 = prepare ev rq h0 in
      if finished h1 then on_finish ev rq h1
      else
        let h2 = receive chunks h1 in
        if connection_closed h2 then on_connection_close ev h2
        else on_finish ev rq
               (case rq_method rq of
                  POST \<Rightarrow> post h2
                | PUT \<Rightarrow> put h2
                | PATCH \<Rightarrow> patch copy_fault ev h2
                | HEAD \<Rightarrow> head h2))"


section \<open>ProxyHandler: what the client receives\<close>

text \<open>
  The proxy forwards the request to the StreamHandler and relays the answer. The HTTP
  client raises for an answer outside 2xx, which leaves the method as an exception.
  \<open>json.loads\<close> succeeds on a body that is one JSON document, and only a document with
  the key \<open>message\<close> passes the lookup. A connection that the StreamHandler closed with
  no answer is reported by the HTTP client as code 599.
\<close>

definition proxy_relay :: "http_method \<Rightarrow> nat \<times> payload list \<Rightarrow> nat \<times> payload list" where
  "proxy_relay m resp =
     (case resp of (code, body1) \<Rightarrow>
        if m = HEAD then (201, [])
        else if code < 200 \<or> 300 \<le> code then (500, [Error_page])
        else if m = PATCH
        then (case body1 of
                [J_message msg] \<Rightarrow>
                  if msg = ''chunk_order_incorrect'' then (400, body1) else (code, body1)
              | _ \<Rightarrow> (code, body1))
        else (code, body1))"

definition client_response :: "http_method \<Rightarrow> handler \<Rightarrow> nat \<times> payload list" where
  "client_response m h =
     proxy_relay m (if connection_closed h then (599, []) else (status_code h, written h))"


section \<open>GenericFormDataHandler: multipart form uploads\<close>

text \<open>
  \<open>write_file\<close> for one file of the form. \<open>hidden\<close> is the \<open>.tsd\<close> folder of the \<open>sns\<close>
  backend, \<open>None\<close> for the other backends; \<open>uuid\<close> is the value of \<open>uuid4()\<close>.
\<close>

definition write_file ::
  "path \<Rightarrow> path option \<Rightarrow> filesys \<Rightarrow> filemode \<Rightarrow> string \<Rightarrow> bytes \<Rightarrow> string
     \<Rightarrow> bool \<times> filesys" where
  "write_file proj hidden fs0 mode filename filebody uuid =
     (let p = join_path proj filename;
          pp = part_name p uuid
      in if lexists fs0 pp then (False, fs0)
         else
           (case (if lexists fs0 p then os_rename fs0 p pp else Inr fs0) of
              Inl e \<Rightarrow> (False, fs0)
            | Inr fs1 \<Rightarrow>
                (case os_open fs1 pp mode of
                   Inl e \<Rightarrow> (False, fs1)
                 | Inr fs2 \<Rightarrow>
                     let fs3 = fs_append fs2 pp filebody in
                     (case os_rename fs3 pp p of
                        Inl e \<Rightarrow> (False, fs3)
                      | Inr fs4 \<Rightarrow>
                          (case hidden of
                             None \<Rightarrow> (True, fs4)
                           | Some folder \<Rightarrow>
                               if isdir fs4 folder
                               then (True, AList.update (folder @ ''/'' @ filename)
                                             (File (case map_of fs4 p of
                                                      Some (File b) \<Rightarrow> b | _ \<Rightarrow> [])) fs4)
                               else (False, fs4))))))"

text \<open>
  \<open>write_files\<close>: every file of the form in turn, each with its own \<open>uuid4()\<close>; an
  empty body or a rejected file name stops the loop.
\<close>

fun write_files ::
  "(string \<Rightarrow> string option) \<Rightarrow> path \<Rightarrow> path option \<Rightarrow> filemode
     \<Rightarrow> (string \<times> bytes \<times> string) list \<Rightarrow> filesys \<Rightarrow> bool \<times> filesys" where
  "write_files chk proj hidden mode [] fs0 = (True, fs0)"
| "write_files chk proj hidden mode ((name, filebody, uuid) # rest) fs0 =
     (case chk name of
        None \<Rightarrow> (False, fs0)
      | Some filename \<Rightarrow>
          if filebody = [] then (False, fs0)
          else
            (case write_file proj hidden fs0 mode filename filebody uuid of
               (False, fs1) \<Rightarrow> (False, fs1)
             | (True, fs1) \<Rightarrow> write_files chk proj hidden mode rest fs1))"

text \<open>The file mode that \<open>FormDataHandler\<close> and \<open>SnsFormDataHandler\<close> pass for each method.\<close>

definition form_filemode :: "http_method \<Rightarrow> filemode option" where
  "form_filemode m =
     (case m of POST \<Rightarrow> Some Ab_plus | PATCH \<Rightarrow> Some Ab_plus | PUT \<Rightarrow> Some Wb_plus
      | HEAD \<Rightarrow> None)"

definition handle_data ::
  "(string \<Rightarrow> string option) \<Rightarrow> path \<Rightarrow> path option \<Rightarrow> filemode
     \<Rightarrow> (string \<times> bytes \<times> string) list \<Rightarrow> filesys \<Rightarrow> (nat \<times> string) \<times> filesys" where
  "handle_data chk proj hidden mode form_files fs0 =
     (case write_files chk proj hidden mode form_files fs0 of
        (True, fs1) \<Rightarrow> ((201, ''data uploaded''), fs1)
      | (False, fs1) \<Rightarrow> ((400, ''could not upload data''), fs1))"


section \<open>ResumablesHandler: information about uploads in progress\<close>

text \<open>
  The helpers from other modules that this handler uses: the sort by
  \<open>natural_keys\<close>, the pattern \<open>_IS_VALID_UUID\<close> and \<open>md5sum\<close> of a file, here a
  function of the content.
\<close>

record rs_env =
  rs_natural_sort :: "string list \<Rightarrow> string list"
  is_valid_uuid :: "string \<Rightarrow> bool"
  md5sum :: "bytes \<Rightarrow> string"

text \<open>\<open>xs[i]\<close> with Python's negative indices.\<close>

definition py_index :: "'a list \<Rightarrow> int \<Rightarrow> pyerr + 'a" where
  "py_index xs i =
     (if i < - int (length xs) \<or> int (length xs) \<le> i then Inl IndexError
      else if i < 0 then Inr (xs ! nat (int (length xs) + i))
      else Inr (xs ! nat i))"

definition resumables_cmp :: "nat \<times> string \<Rightarrow> nat \<times> string \<Rightarrow> int" where
  "resumables_cmp a b =
     (let a_time = fst a; b_time = fst b
      in if a_time > b_time then - 1 else if a_time < b_time then 1 else 1)"

text \<open>
  \<open>list.sort(cmp)\<close>. CPython's sort is stable and asks one question of the comparison
  function, whether \<open>cmp(x, y) < 0\<close>; an element is placed before the first element
  it is less than.
\<close>

fun insert_cmp :: "('a \<Rightarrow> 'a \<Rightarrow> int) \<Rightarrow> 'a \<Rightarrow> 'a list \<Rightarrow> 'a list" where
  "insert_cmp cmp x [] = [x]"
| "insert_cmp cmp x (y # ys) = (if cmp x y < 0 then x # y # ys else y # insert_cmp cmp x ys)"

definition sort_cmp :: "('a \<Rightarrow> 'a \<Rightarrow> int) \<Rightarrow> 'a list \<Rightarrow> 'a list" where
  "sort_cmp cmp xs = foldl (\<lambda>sorted x. insert_cmp cmp x sorted) [] xs"

definition find_nth_chunk ::
  "rs_env \<Rightarrow> filesys \<Rightarrow> path \<Rightarrow> string \<Rightarrow> string \<Rightarrow> int \<Rightarrow> pyerr + string" where
  "find_nth_chunk ev fs0 proj upload filename n =
     (case os_listdir fs0 (join_path proj upload) of
        Inl e \<Rightarrow> Inl e
      | Inr names \<Rightarrow>
          let completed_chunks = filter (\<lambda>f. \<not> py_in ''.part'' f) (rs_natural_sort ev names)
          in py_index completed_chunks (n - 1))"

text \<open>The loop over the sorted candidates, which stops at the first match.\<close>

fun first_matching_candidate ::
  "rs_env \<Rightarrow> filesys \<Rightarrow> path \<Rightarrow> string \<Rightarrow> (nat \<times> string) list \<Rightarrow> pyerr + string option" where
  "first_matching_candidate ev fs0 proj filename [] = Inr None"
| "first_matching_candidate ev fs0 proj filename (cand # rest) =
     (case find_nth_chunk ev fs0 proj (snd cand) filename 1 of
        Inl e \<Rightarrow> Inl e
      | Inr first_chunk \<Rightarrow>
          if py_in filename first_chunk then Inr (Some (snd cand))
          else first_matching_candidate ev fs0 proj filename rest)"

text \<open>
  The candidates: the ids of the user that are valid UUIDs and exist below the project
  directory, each with \<open>os.stat(current_pr).st_size\<close>.
\<close>

fun candidates_of :: "rs_env \<Rightarrow> meta \<Rightarrow> filesys \<Rightarrow> path \<Rightarrow> string list \<Rightarrow> pyerr + (nat \<times> string) list" where
  "candidates_of ev mt fs0 proj [] = Inr []"
| "candidates_of ev mt fs0 proj (pr # rest) =
     (let current_pr = join_path proj pr
      in if is_valid_uuid ev pr \<and> lexists fs0 current_pr
         then (case os_stat mt fs0 current_pr of
                 Inl e \<Rightarrow> Inl e
               | Inr st \<Rightarrow>
                   (case candidates_of ev mt fs0 proj rest of
                      Inl e \<Rightarrow> Inl e
                    | Inr cs \<Rightarrow> Inr ((st_size st, pr) # cs)))
         else candidates_of ev mt fs0 proj rest)"

definition find_relevant_resumable_dir ::
  "rs_env \<Rightarrow> meta \<Rightarrow> filesys \<Rightarrow> store \<Rightarrow> string \<Rightarrow> path \<Rightarrow> string \<Rightarrow> string option
     \<Rightarrow> pyerr + string option" where
  "find_relevant_resumable_dir ev mt fs0 rdb0 usr proj filename upload_id =
     (let potential_resumables = resumable_db_get_all_resumable_ids_for_user rdb0 usr
      in case (case upload_id of None \<Rightarrow> None | Some i \<Rightarrow> if i = [] then None else Some i) of
           None \<Rightarrow>
             (case candidates_of ev mt fs0 proj potential_resumables of
                Inl e \<Rightarrow> Inl e
              | Inr candidates \<Rightarrow>
                  first_matching_candidate ev fs0 proj filename (sort_cmp resumables_cmp candidates))
         | Some i \<Rightarrow>
             Inr (foldl (\<lambda>relevant pr. if is_valid_uuid ev pr \<and> i = pr then Some pr else relevant)
                    None potential_resumables))"

text \<open>
  What \<open>repair_inconsistent_resumable\<close> returns: \<open>False\<close>, the list of chunks, a triple
  \<open>(chunks, warning, recommendation)\<close>, or nothing at all when no branch returns.
\<close>

datatype repair_result =
    R_false
  | R_chunks "string list"
  | R_triple "string list" "string option" "string option"
  | R_none

definition repair_inconsistent_resumable ::
  "meta \<Rightarrow> filesys \<Rightarrow> path \<Rightarrow> string list \<Rightarrow> nat \<Rightarrow> nat \<Rightarrow> (pyerr + repair_result) \<times> filesys" where
  "repair_inconsistent_resumable mt fs0 merged_file chunks merged_file_size sum_chunks_size =
     (if length chunks = 0 then (Inr R_false, fs0)
      else
        let last_chunk = last chunks in
        (case os_stat mt fs0 last_chunk of
           Inl e \<Rightarrow> (Inl e, fs0)
         | Inr st \<Rightarrow>
             let last_chunk_size = st_size st in
             if merged_file_size = sum_chunks_size then (Inr (R_chunks chunks), fs0)
             else
               let diff = int sum_chunks_size - int merged_file_size in
               if merged_file_size < sum_chunks_size \<and> diff \<le> int last_chunk_size
               then
                 (let target_size = int sum_chunks_size - int last_chunk_size;
                      failed = R_triple chunks (Some ''not sure what to do'') (Some ''end'')
                  in case os_open fs0 merged_file Ab_plus of
                       Inl e \<Rightarrow> (Inr failed, fs0)
                     | Inr fs1 \<Rightarrow>
                         (case fs_truncate fs1 merged_file target_size of
                            Inl e \<Rightarrow> (Inr failed, fs1)
                          | Inr fs2 \<Rightarrow>
                              (case map_of fs2 last_chunk of
                                 Some (File c) \<Rightarrow>
                                   let fs3 = fs_append fs2 merged_file c in
                                   (case os_stat mt fs3 merged_file of
                                      Inl e \<Rightarrow> (Inr failed, fs3)
                                    | Inr st3 \<Rightarrow>
                                        if st_size st3 = sum_chunks_size
                                        then (Inr (R_triple chunks None None), fs3)
                                        else (Inr failed, fs3))
                               | _ \<Rightarrow> (Inr failed, fs2))))
               else (Inr R_none, fs0)))"

text \<open>
  The tuple that \<open>get_resumable_chunk_info\<close> returns, in the order of its \<open>return\<close>
  statement: size of the last chunk, its number, its md5 sum, previous offset, next
  offset, recommendation, warning, file name. \<open>None\<close> is the tuple of eight \<open>None\<close>s.
\<close>

type_synonym chunk_info =
  "(nat \<times> int \<times> string \<times> int \<times> nat \<times> string option \<times> string option \<times> string) option"

text \<open>
  The local function \<open>info\<close>. It calls itself after a repair; \<open>depth\<close> is what is left
  of the interpreter's recursion limit, and running out of it is an exception that the
  innermost \<open>except Exception\<close> turns into the tuple of \<open>None\<close>s.
\<close>

fun info ::
  "nat \<Rightarrow> rs_env \<Rightarrow> meta \<Rightarrow> store \<Rightarrow> path \<Rightarrow> path \<Rightarrow> filesys \<Rightarrow> string list
     \<Rightarrow> (pyerr + chunk_info) \<times> filesys" where
  "info 0 ev mt rdb0 resumable_dir proj fs0 chunks = (Inr None, fs0)"
| "info (Suc depth) ev mt rdb0 resumable_dir proj fs0 chunks =
     (case py_index chunks (- 1) of
        Inl e \<Rightarrow> (Inl e, fs0)
      | Inr last_chunk \<Rightarrow>
          (case py_int (last (py_split ''.'' last_chunk)) of
             None \<Rightarrow> (Inl ValueError, fs0)
           | Some num \<Rightarrow>
               (case os_stat mt fs0 last_chunk of
                  Inl e \<Rightarrow> (Inl e, fs0)
                | Inr st \<Rightarrow>
                    let latest_size = st_size st;
                        upload = basename resumable_dir;
                        next_offset = resumable_db_get_total_size rdb0 upload;
                        previous_offset = int next_offset - int latest_size;
                        filename = basename (hd (py_split ''.chunk'' last_chunk));
                        merged_file = merged_name proj filename upload
                    in (case os_stat mt fs0 merged_file of
                          Inl e \<Rightarrow> (Inl e, fs0)
                        | Inr stm \<Rightarrow>
                            if st_size stm = next_offset
                            then (Inr (Some (latest_size, num,
                                             md5sum ev (case map_of fs0 last_chunk of
                                                          Some (File c) \<Rightarrow> c | _ \<Rightarrow> []),
                                             previous_offset, next_offset, None, None, filename)),
                                  fs0)
                            else
                              (case repair_inconsistent_resumable mt fs0 merged_file chunks
                                      (st_size stm) next_offset of
                                 (Inr (R_triple chunks1 warning recommendation), fs1) \<Rightarrow>
                                   (case info depth ev mt rdb0 resumable_dir proj fs1 chunks1 of
                                      (Inl e, fs2) \<Rightarrow> (Inr None, fs2)
                                    | (Inr r, fs2) \<Rightarrow> (Inr r, fs2))
                               | (_, fs1) \<Rightarrow> (Inr None, fs1))))))"

definition get_resumable_chunk_info ::
  "nat \<Rightarrow> rs_env \<Rightarrow> meta \<Rightarrow> store \<Rightarrow> filesys \<Rightarrow> path \<Rightarrow> path \<Rightarrow> (pyerr + chunk_info) \<times> filesys" where
  "get_resumable_chunk_info depth ev mt rdb0 fs0 resumable_dir proj =
     (case os_listdir fs0 resumable_dir of
        Inl e \<Rightarrow> (Inl e, fs0)
      | Inr names \<Rightarrow>
          let all_chunks = rs_natural_sort ev (map (join_path resumable_dir) names);
              chunks = filter (\<lambda>c. \<not> py_in ''.part'' c) all_chunks
          in info depth ev mt rdb0 resumable_dir proj fs0 chunks)"

text \<open>
  The answer of \<open>get_resumable_info\<close>. The caller unpacks the tuple with the sixth
  position as \<open>warning\<close> and the seventh as \<open>recommendation\<close>.
\<close>

datatype offset = No_offset | Offset nat | Offset_end

record resumable_info =
  ri_filename :: "string option"
  ri_id :: string
  ri_chunk_size :: "nat option"
  ri_max_chunk :: "int option"
  ri_md5sum :: "string option"
  ri_previous_offset :: "int option"
  ri_next_offset :: offset
  ri_warning :: "string option"
  ri_group :: "string option"

definition get_resumable_info ::
  "nat \<Rightarrow> rs_env \<Rightarrow> meta \<Rightarrow> store \<Rightarrow> string \<Rightarrow> filesys \<Rightarrow> path \<Rightarrow> string \<Rightarrow> string option
     \<Rightarrow> (pyerr + resumable_info) \<times> filesys" where
  "get_resumable_info depth ev mt rdb0 usr fs0 proj filename upload_id =
     (case find_relevant_resumable_dir ev mt fs0 rdb0 usr proj filename upload_id of
        Inl e \<Rightarrow> (Inl e, fs0)
      | Inr None \<Rightarrow> (Inl Exception, fs0)
      | Inr (Some relevant_dir) \<Rightarrow>
          if relevant_dir = [] then (Inl Exception, fs0)
          else
            (case get_resumable_chunk_info depth ev mt rdb0 fs0 (join_path proj relevant_dir) proj of
               (Inl e, fs1) \<Rightarrow> (Inl e, fs1)
             | (Inr r, fs1) \<Rightarrow>
                 let grp = (case upload_id of
                              None \<Rightarrow> None
                            | Some i \<Rightarrow> resumable_db_get_group rdb0 i)
                 in (case r of
                       None \<Rightarrow>
                         (Inr \<lparr>ri_filename = None, ri_id = relevant_dir, ri_chunk_size = None,
                               ri_max_chunk = None, ri_md5sum = None, ri_previous_offset = None,
                               ri_next_offset = No_offset, ri_warning = None, ri_group = grp\<rparr>,
                          fs1)
                     | Some (chunk_size, max_chunk, md5, previous_offset, next_offset,
                             warning, recommendation, fname) \<Rightarrow>
                         (Inr \<lparr>ri_filename = Some fname, ri_id = relevant_dir,
                               ri_chunk_size = Some chunk_size, ri_max_chunk = Some max_chunk,
                               ri_md5sum = Some md5, ri_previous_offset = Some previous_offset,
                               ri_next_offset = (if recommendation = Some ''end'' then Offset_end
                                                 else Offset next_offset),
                               ri_warning = warning, ri_group = grp\<rparr>,
                          fs1))))"

text \<open>
  \<open>get\<close> for a request that names a file: status 200 with the information, or 400
  \<open>None\<close> when anything raised.
\<close>

definition resumables_get ::
  "nat \<Rightarrow> rs_env \<Rightarrow> meta \<Rightarrow> store \<Rightarrow> string \<Rightarrow> (string \<Rightarrow> string option) \<Rightarrow> filesys \<Rightarrow> path
     \<Rightarrow> string \<Rightarrow> string option \<Rightarrow> (nat \<times> resumable_info option) \<times> filesys" where
  "resumables_get depth ev mt rdb0 usr chk fs0 proj filename upload_id =
     (case chk filename of
        None \<Rightarrow> ((400, None), fs0)
      | Some secured_filename \<Rightarrow>
          (case get_resumable_info depth ev mt rdb0 usr fs0 proj secured_filename upload_id of
             (Inl e, fs1) \<Rightarrow> ((400, None), fs1)
           | (Inr i, fs1) \<Rightarrow> ((200, Some i), fs1)))"


section \<open>Notions used in the statements\<close>

text \<open>
  The content types that start a decoder; every other content type is written to the
  file as it arrives.
\<close>

definition decoder_content_types :: "string list" where
  "decoder_content_types =
     [''application/aes'', ''application/aes-octet-stream'', ''application/tar'',
      ''application/tar.gz'', ''application/tar.aes'', ''application/tar.gz.aes'',
      ''application/gz'', ''application/gz.aes'']"

text \<open>
  The handler is in the middle of a direct upload: it writes to the open file \<open>pp\<close>
  and will rename it to \<open>p\<close>.
\<close>

definition writing_to :: "handler \<Rightarrow> path \<Rightarrow> path \<Rightarrow> bool" where
  "writing_to h pp p =
     (\<not> finished h \<and> \<not> connection_closed h \<and> self_custom_content_type h = None
      \<and> self_target_file h = Some \<lparr>fo_path = pp, fo_closed = False\<rparr>
      \<and> self_path h = Some pp \<and> self_path_part h = Some p
      \<and> self_merged_file h = None)"

text \<open>
  The file system after \<open>prepare\<close> has moved an existing target out of the way, and
  the bytes a direct upload starts from: the old content under \<open>POST\<close>, nothing
  otherwise.
\<close>

definition staged :: "filesys \<Rightarrow> path \<Rightarrow> path \<Rightarrow> filesys" where
  "staged fs0 p pp =
     (case map_of fs0 p of
        Some (File old) \<Rightarrow> AList.update pp (File old) (AList.delete p fs0)
      | _ \<Rightarrow> fs0)"

definition base_of :: "http_method \<Rightarrow> node option \<Rightarrow> bytes" where
  "base_of m n = (case (m, n) of (POST, Some (File old)) \<Rightarrow> old | _ \<Rightarrow> [])"

text \<open>
  The number in the name of a chunk file, the completed chunks among the names of a
  directory (those without \<open>.part\<close>), and the highest number of a completed chunk in
  the directory of an upload. There is none when the directory is missing or empty or
  holds a completed name that ends in no number.
\<close>

definition chunk_number :: "string \<Rightarrow> int option" where
  "chunk_number name = py_int (last (py_split ''.chunk.'' name))"

definition completed_chunks :: "string list \<Rightarrow> string list" where
  "completed_chunks names = filter (\<lambda>c. \<not> py_in ''.part'' c) names"

definition highest_chunk_on_disk :: "filesys \<Rightarrow> path \<Rightarrow> int option" where
  "highest_chunk_on_disk fs0 d =
     (case os_listdir fs0 d of
        Inl e \<Rightarrow> None
      | Inr names \<Rightarrow>
          let nums = map chunk_number (completed_chunks names)
          in if nums = [] \<or> None \<in> set nums then None
             else Some (Max (set (map the nums))))"

text \<open>
  What is asked of the sort by \<open>natural_keys\<close>, which is not among the sources: it keeps
  the names and puts the completed chunks in the order of their numbers.
\<close>

definition sorts_by_chunk_number :: "(string list \<Rightarrow> string list) \<Rightarrow> string list \<Rightarrow> bool" where
  "sorts_by_chunk_number srt names =
     (set (srt names) = set names
      \<and> sorted_wrt (\<lambda>a b. the (chunk_number a) \<le> the (chunk_number b))
            (completed_chunks (srt names)))"

text \<open>
  The number that \<open>refuse_upload_if_not_in_sequential_order\<close> takes for the previous
  chunk: the names in the directory of the upload, sorted, without the partial files,
  and the number after \<open>.chunk.\<close> in the last of them. It is the highest number on
  disk when the sort is as above (\<open>last_chunk_is_highest\<close>).
\<close>

definition last_chunk_on_disk :: "ul_env \<Rightarrow> filesys \<Rightarrow> path \<Rightarrow> int option" where
  "last_chunk_on_disk ev fs0 d =
     (case os_listdir fs0 d of
        Inl e \<Rightarrow> None
      | Inr chunks_on_disk \<Rightarrow>
          let full = filter (\<lambda>c. \<not> py_in ''.part'' c) (natural_sort ev chunks_on_disk)
          in if full = [] then None else py_int (last (py_split ''.chunk.'' (last full))))"

text \<open>
  The handler parses the names it has built. \<open>names_parse\<close> says that for this file
  name and chunk argument the parsing gives back the file name and the chunk number (a
  file name that contains \<open>.chunk\<close> or \<open>.part\<close> does not pass).
\<close>

definition names_parse :: "string \<Rightarrow> string \<Rightarrow> int \<Rightarrow> bool" where
  "names_parse filename cs k =
     (let lcf = chunk_file_name filename cs
      in basename lcf = lcf \<and> \<not> py_in ''.part'' lcf \<and> \<not> py_in ''.chunk.end'' lcf
         \<and> hd (py_split ''.chunk'' lcf) = filename \<and> basename filename = filename
         \<and> py_int (last (py_split ''.chunk.'' lcf)) = Some k)"

text \<open>The chunk that a merge of chunk \<open>k\<close> removes when \<open>k\<close> is at least 5.\<close>

definition pruned_chunk :: "path \<Rightarrow> int \<Rightarrow> path" where
  "pruned_chunk chunk k =
     py_replace (''.chunk.'' @ py_str k) (''.chunk.'' @ py_str (k - 4)) chunk"


section \<open>Scenarios\<close>

definition range_env :: dl_env where
  "range_env = \<lparr>check_filename = Some, magic_from_file = (\<lambda>_. ''text/plain''),
     md5_hexdigest = (\<lambda>s. ''md5:'' @ s), str_mtime = str_nat,
     export_dir = ''/p11/export'',
     export_policy = [(''default'', \<lparr>enabled = False, allowed_mime_types = [], max_size = None\<rparr>)],
     export_max_size = 0, CHUNK_SIZE = 2\<rparr>"

definition range_request :: dl_request where
  "range_request = \<lparr>rq_auth = Auth_ok ''u'', rq_pnum = ''p11'', rq_pnum_valid = True,
     rq_filename = ''hello.bin'', rq_range = Some ''bytes=0-2'', rq_if_range = None\<rparr>"

definition meta_before :: meta where
  "meta_before = \<lparr>mtime_of = (\<lambda>_. 7), dirsize_of = (\<lambda>_. 0)\<rparr>"

definition meta_after :: meta where
  "meta_after = \<lparr>mtime_of = (\<lambda>_. 8), dirsize_of = (\<lambda>_. 0)\<rparr>"
definition up_env :: ul_env where
  "up_env = \<lparr>ul_check_filename = Some, natural_sort = (\<lambda>xs. xs), project_dir = ''/p11'',
     backend = ''files'', request_hook_enabled = True\<rparr>"

definition put_request :: ul_request where
  "put_request = \<lparr>rq_method = PUT, rq_token = Auth_ok ''alice'', rq_tenant = ''p11'',
     rq_tenant_valid = True, rq_content_type = Some ''application/octet-stream'',
     rq_uri_filename = ''hello.bin'', rq_group = Some ''p11-member-group'',
     rq_chunk = Some ''None'', rq_id = Some ''None'', uuid_part = ''u1'', uuid_upload = ''U''\<rparr>"

definition disk_with_old :: filesys where
  "disk_with_old = [(''/p11'', Dir), (''/p11/hello.bin'', File ''old'')]"
definition disk_two_chunks :: filesys where
  "disk_two_chunks =
     [(''/p11'', Dir), (''/p11/U'', Dir), (''/p11/U/x.bin.chunk.1'', File ''AAA''),
      (''/p11/x.bin.U'', File ''AAABB''), (''/p11/U/x.bin.chunk.2'', File ''BB'')]"

definition store_two_chunks :: store where
  "store_two_chunks =
     [(''U'', \<lparr>owner = ''alice'', ugroup = ''p11-member-group'', rows = [(1, 3), (2, 2)]\<rparr>)]"

definition chunk_request :: "string \<Rightarrow> ul_request" where
  "chunk_request c = \<lparr>rq_method = PATCH, rq_token = Auth_ok ''alice'', rq_tenant = ''p11'',
     rq_tenant_valid = True, rq_content_type = Some ''application/octet-stream'',
     rq_uri_filename = ''x.bin'', rq_group = Some ''p11-member-group'',
     rq_chunk = Some c, rq_id = Some ''U'', uuid_part = ''u3'', uuid_upload = ''V''\<rparr>"

text \<open>
  An upload with four chunks merged; the request for chunk 5 whose copy into the merged
  file breaks after one byte; and the same request sent again, with no fault, to what
  the first one left.
\<close>

definition disk_four_chunks :: filesys where
  "disk_four_chunks =
     [(''/p11'', Dir), (''/p11/U'', Dir),
      (''/p11/U/x.bin.chunk.1'', File ''A''), (''/p11/U/x.bin.chunk.2'', File ''B''),
      (''/p11/U/x.bin.chunk.3'', File ''C''), (''/p11/U/x.bin.chunk.4'', File ''D''),
      (''/p11/x.bin.U'', File ''ABCD'')]"

definition store_four_chunks :: store where
  "store_four_chunks =
     [(''U'', \<lparr>owner = ''alice'', ugroup = ''p11-member-group'',
               rows = [(1, 1), (2, 1), (3, 1), (4, 1)]\<rparr>)]"

definition after_failed_merge :: handler where
  "after_failed_merge =
     run_request up_env (chunk_request ''5'') [(''EE'', False)] (Some 1)
       (new_handler disk_four_chunks store_four_chunks)"

definition after_retry :: handler where
  "after_retry =
     run_request up_env (chunk_request ''5'') [(''EE'', False)] None
       (new_handler (files after_failed_merge) (store after_failed_merge))"

text \<open>
  Two uploads of \<open>x.bin\<close> by the same user. The directory of the older one is the
  larger on disk, that of the newer one was modified last.
\<close>

definition rs_env0 :: rs_env where
  "rs_env0 = \<lparr>rs_natural_sort = (\<lambda>xs. xs), is_valid_uuid = (\<lambda>s. length s = 36),
     md5sum = (\<lambda>c. ''md5:'' @ c)\<rparr>"

definition id_older :: string where
  "id_older = ''11111111-1111-4111-8111-111111111111''"

definition id_newer :: string where
  "id_newer = ''22222222-2222-4222-8222-222222222222''"

definition disk_two_uploads :: filesys where
  "disk_two_uploads =
     [(''/p11'', Dir),
      (''/p11/'' @ id_older, Dir), (''/p11/'' @ id_older @ ''/x.bin.chunk.1'', File ''AAA''),
      (''/p11/x.bin.'' @ id_older, File ''AAA''),
      (''/p11/'' @ id_newer, Dir), (''/p11/'' @ id_newer @ ''/x.bin.chunk.1'', File ''BB''),
      (''/p11/x.bin.'' @ id_newer, File ''BB'')]"

definition store_two_uploads :: store where
  "store_two_uploads =
     [(id_older, \<lparr>owner = ''alice'', ugroup = ''p11-member-group'', rows = [(1, 3)]\<rparr>),
      (id_newer, \<lparr>owner = ''alice'', ugroup = ''p11-member-group'', rows = [(1, 2)]\<rparr>)]"

definition meta_two_uploads :: meta where
  "meta_two_uploads =
     \<lparr>mtime_of = (\<lambda>p. if p = ''/p11/'' @ id_newer then 200 else 100),
      dirsize_of = (\<lambda>p. if p = ''/p11/'' @ id_older then 4096 else 60)\<rparr>"

text \<open>
  One upload whose only chunk was appended twice to the merged file, and one whose
  second chunk was recorded while only its first byte reached the merged file.
\<close>

definition disk_double_append :: filesys where
  "disk_double_append =
     [(''/p11'', Dir), (''/p11/'' @ id_older, Dir),
      (''/p11/'' @ id_older @ ''/x.bin.chunk.1'', File ''AAA''),
      (''/p11/x.bin.'' @ id_older, File ''AAAAAA'')]"

definition store_one_chunk :: store where
  "store_one_chunk =
     [(id_older, \<lparr>owner = ''alice'', ugroup = ''p11-member-group'', rows = [(1, 3)]\<rparr>)]"

definition disk_torn :: filesys where
  "disk_torn =
     [(''/p11'', Dir), (''/p11/'' @ id_older, Dir),
      (''/p11/'' @ id_older @ ''/x.bin.chunk.1'', File ''AAA''),
      (''/p11/'' @ id_older @ ''/x.bin.chunk.2'', File ''BBBB''),
      (''/p11/x.bin.'' @ id_older, File ''AAAB'')]"

definition store_torn :: store where
  "store_torn =
     [(id_older, \<lparr>owner = ''alice'', ugroup = ''p11-member-group'', rows = [(1, 3), (2, 4)]\<rparr>)]"


section \<open>Range requests\<close>

text \<open>
  What the copy loop of a range request writes: \<open>j\<close> whole chunks, where \<open>j\<close> counts the
  times the test \<open>sent <= bytes_to_read\<close> holds.
\<close>

lemma range_loop_take:
  assumes "0 < cs" and "p + nat cs * j \<le> length content"
    and "btr < sent + cs * int j" and "j \<noteq> 0 \<longrightarrow> sent + cs * (int j - 1) \<le> btr"
  shows "range_loop content cs btr (fd_read content p cs) (p + length (fd_read content p cs)) sent out
         = out @ take (nat cs * j) (drop p content)"
  using assms
proof (induction j arbitrary: p sent out)
  case 0
  then show ?case by (subst range_loop.simps) auto
next
  case (Suc j)
  have nn: "0 \<le> cs * int j" using Suc.prems(1) by simp
  have "sent + cs * int j \<le> btr" using Suc.prems(4) by simp
  with nn have le: "sent \<le> btr" by linarith
  from Suc.prems have len: "p + nat cs \<le> length content" by (simp add: algebra_simps)
  have rd: "fd_read content p cs = take (nat cs) (drop p content)" using Suc.prems by (simp add: fd_read_def)
  have lrd: "length (fd_read content p cs) = nat cs" using len by (simp add: rd)
  have ne: "fd_read content p cs \<noteq> []" using lrd Suc.prems(1) by auto
  have IH: "range_loop content cs btr (fd_read content (p + nat cs) cs)
              (p + nat cs + length (fd_read content (p + nat cs) cs)) (sent + cs) (out @ fd_read content p cs)
            = (out @ fd_read content p cs) @ take (nat cs * j) (drop (p + nat cs) content)"
    using Suc.prems by (intro Suc.IH) (auto simp: algebra_simps)
  have tk: "take (nat cs) (drop p content) @ take (nat cs * j) (drop (p + nat cs) content)
            = take (nat cs * Suc j) (drop p content)"
    by (simp add: take_add add.commute)
  show ?case
    by (subst range_loop.simps) (simp add: le ne lrd Let_def IH, simp add: rd tk)
qed

lemma stream_range_body:
  assumes "0 < chunk_size" and "0 \<le> a" and "a \<le> b" and "b < int (length content)"
  shows "stream_range chunk_size (Some content) a b msg r =
           Inr (r\<lparr>resp_content_length := Some (b - a + 1),
                  resp_body := (let cs = min chunk_size (b - a + 1)
                           in take (nat (cs * ((b - a + 1) div cs))) (drop (nat a) content))\<rparr>)"
proof -
  define btr where "btr = b - a + 1"
  define cs where "cs = min chunk_size btr"
  define j where "j = nat (btr div cs)"
  have btr: "0 < btr" using assms by (simp add: btr_def)
  have cs: "0 < cs" "cs \<le> btr" using assms btr by (auto simp: cs_def)
  have cs_if: "(if chunk_size > btr then btr else chunk_size) = cs" by (simp add: cs_def min_def)
  have jpos: "0 \<le> btr div cs" using btr cs by (simp add: pos_imp_zdiv_nonneg_iff)
  have dm: "cs * (btr div cs) + btr mod cs = btr" by simp
  have "0 \<le> btr mod cs" using cs by simp
  with dm have "cs * (btr div cs) \<le> btr" by linarith
  then have mul: "cs * int j \<le> btr" using jpos by (simp add: j_def)
  have A: "nat a + nat cs * j \<le> length content"
  proof -
    have "int (nat a + nat cs * j) = a + cs * int j" using assms cs by simp
    also have "\<dots> \<le> a + btr" using mul by simp
    also have "\<dots> \<le> int (length content)" using assms by (simp add: btr_def)
    finally show ?thesis by linarith
  qed
  have B: "btr < cs + cs * int j"
  proof -
    have "btr mod cs < cs" using cs by simp
    with dm have "btr < cs + cs * (btr div cs)" by linarith
    then show ?thesis using jpos by (simp add: j_def)
  qed
  have C: "j \<noteq> 0 \<longrightarrow> cs + cs * (int j - 1) \<le> btr" using mul by (simp add: algebra_simps)
  have L: "range_loop content cs btr (fd_read content (nat a) cs)
             (nat a + length (fd_read content (nat a) cs)) cs []
           = [] @ take (nat cs * j) (drop (nat a) content)"
    by (rule range_loop_take[OF cs(1) A B C])
  have nm: "nat cs * j = nat (cs * (btr div cs))" using cs jpos by (simp add: j_def nat_mult_distrib)
  show ?thesis
    unfolding stream_range_def using assms L
    by (simp add: Let_def btr_def[symmetric] cs_if cs_def[symmetric] nm)
qed

text \<open>
  C2 (range correctness) asks that a request for the bytes \<open>a..b\<close> of an exported file
  returns exactly these \<open>b - a + 1\<close> bytes under a \<open>Content-Length\<close> of \<open>b - a + 1\<close>.
  With a chunk size of 2, the request \<open>Range: bytes=0-2\<close> for the three-byte file
  \<open>abc\<close> announces a \<open>Content-Length\<close> of 3 and sends the two bytes \<open>ab\<close>: the loop
  counts a whole chunk for every read, so the last, shorter chunk is never written.
\<close>

theorem get_range_drops_last_partial_chunk:
  "get_file range_env \<lparr>mtime_of = (\<lambda>_. 7), dirsize_of = (\<lambda>_. 0)\<rparr>
     [(''/p11/export/hello.bin'', File ''abc'')] range_request
   = \<lparr>resp_status = 200, resp_content_type = Some ''text/plain'', resp_content_length = Some 3,
      resp_body = ''ab'', resp_message = None\<rparr>"
  by code_simp

section \<open>The validator of a download\<close>

text \<open>
  C9: the ETag of a served file is the md5 digest of the string of its modification
  time, and a range request whose \<open>If-Range\<close> header differs from the ETag computed
  for the file as it is now ends with status 400, before any byte of the file is
  written. The hypotheses say that the request reaches the range branch: the token is
  accepted, the file name is accepted and names an existing file, and the export policy
  lets the file through.
\<close>

theorem etag_is_md5_of_mtime_and_if_range_mismatch_is_400:
  assumes auth: "rq_auth rq = Auth_ok user" and pnum: "rq_pnum_valid rq"
    and name: "check_filename ev (rq_filename rq) = Some f"
    and path: "filepath = export_dir ev @ ''/'' @ f"
    and exists: "lexists fs filepath"
    and pol: "enforce_export_policy ev mt fs unknown_error filepath (rq_pnum rq)
                = (Some (True, mime, sz), msg)"
    and range: "rq_range rq = Some rng"
    and ifr: "rq_if_range rq = Some provided_etag"
  shows "compute_etag ev mt fs (Some filepath)
           = Some (md5_hexdigest ev (str_mtime ev (mtime_of mt filepath)))
         \<and> (provided_etag \<noteq> md5_hexdigest ev (str_mtime ev (mtime_of mt filepath)) \<longrightarrow>
              resp_status (get_file ev mt fs rq) = 400
              \<and> resp_body (get_file ev mt fs rq) = []
              \<and> resp_message (get_file ev mt fs rq)
                  = Some ''The resource has changed, get everything from the start again'')"
proof -
  have ne: "filepath \<noteq> []" by (simp add: path)
  have etag: "compute_etag ev mt fs (Some filepath)
           = Some (md5_hexdigest ev (str_mtime ev (mtime_of mt filepath)))"
    using exists ne by (auto simp: compute_etag_def lexists_def os_stat_def split: option.splits node.splits)
  have "resp_status (get_file ev mt fs rq) = 400
              \<and> resp_body (get_file ev mt fs rq) = []
              \<and> resp_message (get_file ev mt fs rq)
                  = Some ''The resource has changed, get everything from the start again''"
    if "provided_etag \<noteq> md5_hexdigest ev (str_mtime ev (mtime_of mt filepath))"
    using that auth pnum name exists pol range ifr etag
    unfolding get_file_def path
    by (simp add: Let_def get_fail_def new_response_def)
  with etag show ?thesis by blast
qed

text \<open>
  The scenario of the claim: the ETag is taken when the modification time is 7, the
  time changes to 8, and the range request that carries the old ETag gets 400.
\<close>

theorem etag_is_md5_of_mtime_and_if_range_mismatch_is_400_witness:
  "compute_etag range_env meta_before [(''/p11/export/hello.bin'', File ''abc'')] (Some ''/p11/export/hello.bin'') = Some ''md5:7''
  \<and> resp_status (get_file range_env meta_after [(''/p11/export/hello.bin'', File ''abc'')] (range_request\<lparr>rq_if_range := Some ''md5:7''\<rparr>)) = 400"
proof -
  let ?fs = "[(''/p11/export/hello.bin'', File ''abc'')]"
  let ?rq = "range_request\<lparr>rq_if_range := Some ''md5:7''\<rparr>"
  have e1: "compute_etag range_env meta_before ?fs (Some ''/p11/export/hello.bin'') = Some ''md5:7''"
    by code_simp
  have h1: "rq_auth ?rq = Auth_ok ''u''" by (simp add: range_request_def)
  have h2: "rq_pnum_valid ?rq" by (simp add: range_request_def)
  have h3: "check_filename range_env (rq_filename ?rq) = Some ''hello.bin''" by (simp add: range_request_def range_env_def)
  have h4: "''/p11/export/hello.bin'' = export_dir range_env @ ''/'' @ ''hello.bin''" by (simp add: range_env_def)
  have h5: "lexists ?fs ''/p11/export/hello.bin''" by (simp add: lexists_def)
  have h6: "enforce_export_policy range_env meta_after ?fs unknown_error ''/p11/export/hello.bin'' (rq_pnum ?rq)
     = (Some (True, Some ''text/plain'', Some 3), unknown_error)" by code_simp
  have h7: "rq_range ?rq = Some ''bytes=0-2''" by (simp add: range_request_def)
  have h8: "rq_if_range ?rq = Some ''md5:7''" by simp
  have ne: "''md5:7'' \<noteq> md5_hexdigest range_env (str_mtime range_env (mtime_of meta_after ''/p11/export/hello.bin''))"
    by code_simp
  from etag_is_md5_of_mtime_and_if_range_mismatch_is_400[OF h1 h2 h3 h4 h5 h6 h7 h8] ne
  have "resp_status (get_file range_env meta_after ?fs ?rq) = 400" by blast
  with e1 show ?thesis by blast
qed

section \<open>Direct uploads\<close>

text \<open>
  Facts about the association lists, and the run of a direct upload (\<open>POST\<close> or \<open>PUT\<close>
  with a content type that starts no decoder) step by step: \<open>prepare\<close>, the chunks,
  the method, \<open>on_finish\<close>.
\<close>

lemma map_of_update: "map_of (AList.update k v al) = (map_of al)(k \<mapsto> v)"
  by (rule update_conv')

lemma map_of_delete: "map_of (AList.delete k al) = (map_of al)(k := None)"
  by (rule delete_conv')

lemma os_rename_file:
  assumes "map_of fs src = Some (File b)" and "map_of fs dst \<noteq> Some Dir"
  shows "\<exists>fs'. os_rename fs src dst = Inr fs' \<and> map_of fs' = (map_of fs)(src := None, dst \<mapsto> File b)"
  using assms by (simp add: os_rename_def isdir_def map_of_update map_of_delete)

lemma part_neq [simp]: "part_name p u \<noteq> p" "p \<noteq> part_name p u"
  by (simp_all add: part_name_def)

lemma dispatch_plain:
  assumes "ct \<notin> set decoder_content_types"
  shows "dispatch_content_type h ct fm =
           (if self_merged_file h = None then open_target (h\<lparr>self_custom_content_type := None\<rparr>) fm
            else (Inr (), h\<lparr>self_custom_content_type := None\<rparr>))"
  using assms by (simp add: dispatch_content_type_def decoder_content_types_def Let_def)

lemma staged_map:
  assumes "map_of fs0 pp = None" "map_of fs0 p \<noteq> Some Dir" "pp \<noteq> p"
  shows "map_of (staged fs0 p pp) p = None"
    and "map_of (staged fs0 p pp) pp = map_of fs0 p"
    and "q \<noteq> p \<Longrightarrow> q \<noteq> pp \<Longrightarrow> map_of (staged fs0 p pp) q = map_of fs0 q"
  using assms by (auto simp: staged_def map_of_update map_of_delete split: option.splits node.splits)

lemma prepare_try_direct:
  assumes m: "rq_method rq = POST \<or> rq_method rq = PUT"
    and ten: "rq_tenant_valid rq"
    and ct: "rq_content_type rq = Some ct" "ct \<notin> set decoder_content_types"
    and fn: "ul_check_filename ev (rq_uri_filename rq) = Some filename"
    and p: "p = join_path (project_dir ev) filename"
    and pp: "pp = part_name p (uuid_part rq)"
    and free: "map_of (files h0) pp = None" and nodir: "map_of (files h0) p \<noteq> Some Dir"
    and mf: "self_merged_file h0 = None"
  shows "prepare_try ev rq h0 =
           open_target (h0\<lparr>files := staged (files h0) p pp, self_custom_content_type := None,
                           self_path := Some pp, self_path_part := Some p\<rparr>)
                       (filemode_of (rq_method rq))"
proof -
  have np: "rq_method rq \<noteq> PATCH" using m by auto
  have lx: "\<not> lexists (files h0) pp" using free by (simp add: lexists_def)
  show ?thesis
  proof (cases "map_of (files h0) p")
    case None
    then have a: "\<not> lexists (files h0) p" "staged (files h0) p pp = files h0"
      by (simp_all add: lexists_def staged_def)
    show ?thesis
      unfolding prepare_try_def
      by (simp add: ten ct(1) fn np Let_def dispatch_plain[OF ct(2)] mf p[symmetric] pp[symmetric] lx a)
         (intro arg_cong2[where f=open_target] handler.equality; simp)
  next
    case (Some n)
    with nodir obtain old where old: "map_of (files h0) p = Some (File old)" by (cases n) auto
    have a: "lexists (files h0) p" "\<not> isdir (files h0) p"
      "os_rename (files h0) p pp = Inr (staged (files h0) p pp)"
      using old free by (simp_all add: lexists_def isdir_def staged_def os_rename_def)
    show ?thesis
      unfolding prepare_try_def
      by (simp add: ten ct(1) fn np Let_def dispatch_plain[OF ct(2)] mf p[symmetric] pp[symmetric] lx a)
         (intro arg_cong2[where f=open_target] handler.equality; simp)
  qed
qed

lemma open_target_ok:
  assumes "self_path h = Some pp" and "map_of (files h) pp \<noteq> Some Dir"
  shows "\<exists>fs1. open_target h (Some mode)
                 = (Inr (), h\<lparr>files := fs1, self_target_file := Some \<lparr>fo_path = pp, fo_closed = False\<rparr>\<rparr>)
               \<and> map_of fs1 = (map_of (files h))(pp \<mapsto> File (case (mode, map_of (files h) pp) of
                                                            (Ab_plus, Some (File old)) \<Rightarrow> old | _ \<Rightarrow> []))"
proof (cases "map_of (files h) pp")
  case None
  show ?thesis
    by (rule exI[where x="AList.update pp (File []) (files h)"])
       (use None assms in \<open>auto simp: open_target_def os_open_def map_of_update split: filemode.splits\<close>)
next
  case (Some n)
  with assms obtain old where old: "map_of (files h) pp = Some (File old)" by (cases n) auto
  show ?thesis
  proof (cases mode)
    case Ab_plus
    have "(map_of (files h))(pp \<mapsto> File old) = map_of (files h)" using old by (auto simp: fun_eq_iff)
    then show ?thesis
      by (intro exI[where x="files h"]) (use assms old Ab_plus in \<open>simp add: open_target_def os_open_def\<close>)
  next
    case Wb_plus
    then show ?thesis
      by (intro exI[where x="AList.update pp (File []) (files h)"])
         (use assms old in \<open>simp add: open_target_def os_open_def map_of_update\<close>)
  qed
qed

lemma prepare_direct:
  assumes m: "rq_method rq = POST \<or> rq_method rq = PUT"
    and tok: "rq_token rq = Auth_ok u" and ten: "rq_tenant_valid rq"
    and ct: "rq_content_type rq = Some ct" "ct \<notin> set decoder_content_types"
    and fn: "ul_check_filename ev (rq_uri_filename rq) = Some filename"
    and p: "p = join_path (project_dir ev) filename"
    and pp: "pp = part_name p (uuid_part rq)"
    and free: "map_of fs0 pp = None" and nodir: "map_of fs0 p \<noteq> Some Dir"
  shows "writing_to (prepare ev rq (new_handler fs0 rdb0)) pp p"
    and "map_of (files (prepare ev rq (new_handler fs0 rdb0)))
           = (map_of fs0)(p := None, pp \<mapsto> File (base_of (rq_method rq) (map_of fs0 p)))"
    and "store (prepare ev rq (new_handler fs0 rdb0)) = rdb0"
    and "status_code (prepare ev rq (new_handler fs0 rdb0)) = 200"
    and "written (prepare ev rq (new_handler fs0 rdb0)) = []"
    and "hook_calls (prepare ev rq (new_handler fs0 rdb0)) = []"
proof -
  define h0 where "h0 = (new_handler fs0 rdb0)\<lparr>self_resumable_is_complete := True, self_merged_file := None,
                   self_target_file := None, self_custom_content_type := None,
                   self_path := None, self_path_part := None,
                   self_chunk_order_correct := None\<rparr>"
  define hs where "hs = h0\<lparr>files := staged (files h0) p pp, self_custom_content_type := None,
                           self_path := Some pp, self_path_part := Some p\<rparr>"
  obtain mode where mode: "filemode_of (rq_method rq) = Some mode"
      "mode = Ab_plus \<longleftrightarrow> rq_method rq = POST"
    using m by (auto simp: filemode_of_def)
  have f0: "files h0 = fs0" "self_merged_file h0 = None" by (simp_all add: h0_def new_handler_def)
  have pt: "prepare_try ev rq h0 = open_target hs (Some mode)"
    unfolding hs_def mode(1)[symmetric]
    by (rule prepare_try_direct[OF m ten ct fn p pp]) (simp_all add: f0 free nodir)
  have neq: "pp \<noteq> p" by (simp add: pp)
  have sm: "map_of (files hs) pp = map_of fs0 p" "map_of (files hs) p = None"
    using staged_map[OF free nodir neq] by (simp_all add: hs_def f0)
  have smq: "map_of (files hs) = (map_of fs0)(p := None, pp := map_of fs0 p)"
    using staged_map[OF free nodir neq] free neq by (auto simp: hs_def f0 fun_eq_iff)
  have "self_path hs = Some pp" by (simp add: hs_def)
  moreover have "map_of (files hs) pp \<noteq> Some Dir" using sm nodir by simp
  ultimately obtain fs1 where fs1:
    "open_target hs (Some mode) = (Inr (), hs\<lparr>files := fs1, self_target_file := Some \<lparr>fo_path = pp, fo_closed = False\<rparr>\<rparr>)"
    "map_of fs1 = (map_of (files hs))(pp \<mapsto> File (case (mode, map_of (files hs) pp) of
                                                            (Ab_plus, Some (File old)) \<Rightarrow> old | _ \<Rightarrow> []))"
    using open_target_ok by blast
  have prep: "prepare ev rq (new_handler fs0 rdb0)
              = hs\<lparr>files := fs1, self_target_file := Some \<lparr>fo_path = pp, fo_closed = False\<rparr>\<rparr>"
    unfolding prepare_def Let_def h0_def[symmetric] by (simp add: tok pt fs1(1))
  have base: "(case (mode, map_of fs0 p) of (Ab_plus, Some (File old)) \<Rightarrow> old | _ \<Rightarrow> [])
              = base_of (rq_method rq) (map_of fs0 p)"
    using mode(2) m by (cases mode) (auto simp: base_of_def split: option.splits node.splits)
  show "writing_to (prepare ev rq (new_handler fs0 rdb0)) pp p"
    unfolding prep by (simp add: writing_to_def hs_def h0_def new_handler_def)
  show "map_of (files (prepare ev rq (new_handler fs0 rdb0)))
           = (map_of fs0)(p := None, pp \<mapsto> File (base_of (rq_method rq) (map_of fs0 p)))"
    unfolding prep using base by (simp add: fs1(2) sm smq)
  show "store (prepare ev rq (new_handler fs0 rdb0)) = rdb0"
    unfolding prep by (simp add: hs_def h0_def new_handler_def)
  show "status_code (prepare ev rq (new_handler fs0 rdb0)) = 200"
    unfolding prep by (simp add: hs_def h0_def new_handler_def tornado_default_status_def)
  show "written (prepare ev rq (new_handler fs0 rdb0)) = []"
    unfolding prep by (simp add: hs_def h0_def new_handler_def)
  show "hook_calls (prepare ev rq (new_handler fs0 rdb0)) = []"
    unfolding prep by (simp add: hs_def h0_def new_handler_def)
qed

lemma data_received_ok:
  assumes "writing_to h pp p" and "map_of (files h) pp = Some (File c)"
  shows "data_received h chunk False = h\<lparr>files := AList.update pp (File (c @ chunk)) (files h)\<rparr>"
  using assms by (simp add: data_received_def writing_to_def fs_append_def)

lemma receive_ok:
  assumes "writing_to h pp p" and "map_of (files h) pp = Some (File c)"
    and "\<forall>x \<in> set chunks. \<not> snd x"
  shows "writing_to (receive chunks h) pp p
       \<and> map_of (files (receive chunks h)) = (map_of (files h))(pp \<mapsto> File (c @ concat (map fst chunks)))
       \<and> store (receive chunks h) = store h \<and> status_code (receive chunks h) = status_code h
       \<and> written (receive chunks h) = written h \<and> hook_calls (receive chunks h) = hook_calls h"
  using assms
proof (induction chunks arbitrary: h c)
  case Nil
  then show ?case by (auto simp: fun_eq_iff)
next
  case (Cons x chunks)
  obtain chunk wf where x: "x = (chunk, wf)" by (cases x)
  with Cons.prems have wf: "\<not> wf" by simp
  let ?h = "h\<lparr>files := AList.update pp (File (c @ chunk)) (files h)\<rparr>"
  have step: "data_received h chunk False = ?h"
    by (rule data_received_ok[OF Cons.prems(1,2)])
  have nf: "\<not> connection_closed h" using Cons.prems(1) by (simp add: writing_to_def)
  have w: "writing_to ?h pp p" using Cons.prems(1) by (simp add: writing_to_def)
  have mp: "map_of (files ?h) pp = Some (File (c @ chunk))" by (simp add: map_of_update)
  have rest: "\<forall>x \<in> set chunks. \<not> snd x" using Cons.prems(3) by simp
  have rc: "receive (x # chunks) h = receive chunks ?h"
    using wf nf step by (simp add: x)
  show ?case
    unfolding rc using Cons.IH[OF w mp rest]
    by (auto simp: map_of_update x fun_eq_iff)
qed

lemma post_ok:
  assumes "writing_to h pp p" and "map_of (files h) pp = Some (File c)"
    and "map_of (files h) p \<noteq> Some Dir"
  shows "post h = respond_201 (h\<lparr>self_target_file := Some \<lparr>fo_path = pp, fo_closed = True\<rparr>,
                                  files := AList.update p (File c) (AList.delete pp (files h))\<rparr>)
                              (J_message ''data streamed'')"
  using assms
  by (simp add: post_def close_and_commit_def writing_to_def close_target_def
                rename_path_to_path_part_def os_rename_def isdir_def)

lemma on_finish_committed:
  assumes "self_target_file h = Some \<lparr>fo_path = pp, fo_closed = True\<rparr>"
    and "self_merged_file h = None"
  shows "files (on_finish ev rq h) = files h" and "store (on_finish ev rq h) = store h"
    and "status_code (on_finish ev rq h) = status_code h" and "written (on_finish ev rq h) = written h"
  using assms by (simp_all add: on_finish_def)

lemma direct_upload_run:
  assumes m: "rq_method rq = POST \<or> rq_method rq = PUT"
    and tok: "rq_token rq = Auth_ok u" and ten: "rq_tenant_valid rq"
    and ct: "rq_content_type rq = Some ct" "ct \<notin> set decoder_content_types"
    and fn: "ul_check_filename ev (rq_uri_filename rq) = Some filename"
    and p: "p = join_path (project_dir ev) filename"
    and pp: "pp = part_name p (uuid_part rq)"
    and free: "map_of fs0 pp = None" and nodir: "map_of fs0 p \<noteq> Some Dir"
    and ok: "\<forall>x \<in> set chunks. \<not> snd x"
  shows "map_of (files (run_request ev rq chunks cf (new_handler fs0 rdb0)))
           = (map_of fs0)(p \<mapsto> File (base_of (rq_method rq) (map_of fs0 p) @ concat (map fst chunks)))"
    and "status_code (run_request ev rq chunks cf (new_handler fs0 rdb0)) = 201"
    and "written (run_request ev rq chunks cf (new_handler fs0 rdb0)) = [J_message ''data streamed'']"
    and "store (run_request ev rq chunks cf (new_handler fs0 rdb0)) = rdb0"
proof -
  let ?h1 = "prepare ev rq (new_handler fs0 rdb0)"
  let ?h2 = "receive chunks ?h1"
  let ?base = "base_of (rq_method rq) (map_of fs0 p)"
  let ?new = "?base @ concat (map fst chunks)"
  note pr = prepare_direct[OF m tok ten ct fn p pp free nodir, of rdb0]
  have neq: "pp \<noteq> p" by (simp add: pp)
  have c1: "map_of (files ?h1) pp = Some (File ?base)" by (simp add: pr(2))
  note rc = receive_ok[OF pr(1) c1 ok]
  have w2: "writing_to ?h2 pp p" using rc by blast
  have m2: "map_of (files ?h2) = (map_of fs0)(p := None, pp \<mapsto> File ?new)"
    using rc by (simp add: pr(2))
  have c2: "map_of (files ?h2) pp = Some (File ?new)" by (simp add: m2)
  have d2: "map_of (files ?h2) p \<noteq> Some Dir" using neq by (simp add: m2)
  note po = post_ok[OF w2 c2 d2]
  let ?h3 = "post ?h2"
  have nf1: "\<not> finished ?h1" using pr(1) by (simp add: writing_to_def)
  have nf2: "\<not> connection_closed ?h2" using w2 by (simp add: writing_to_def)
  have run: "run_request ev rq chunks cf (new_handler fs0 rdb0) = on_finish ev rq ?h3"
    using m nf1 nf2 by (auto simp: run_request_def Let_def put_def)
  have t3: "self_target_file ?h3 = Some \<lparr>fo_path = pp, fo_closed = True\<rparr>"
    and mf3: "self_merged_file ?h3 = None"
    using w2 by (simp_all add: po respond_201_def writing_to_def)
  note fin = on_finish_committed[OF t3 mf3, of ev rq]
  have m3: "map_of (files ?h3) = (map_of fs0)(p \<mapsto> File ?new)"
    using free neq by (auto simp: po respond_201_def map_of_update map_of_delete m2 fun_eq_iff)
  show "map_of (files (run_request ev rq chunks cf (new_handler fs0 rdb0))) = (map_of fs0)(p \<mapsto> File ?new)"
    unfolding run fin by (simp add: m3)
  show "status_code (run_request ev rq chunks cf (new_handler fs0 rdb0)) = 201"
    unfolding run fin by (simp add: po respond_201_def)
  show "written (run_request ev rq chunks cf (new_handler fs0 rdb0)) = [J_message ''data streamed'']"
    unfolding run fin using rc by (simp add: po respond_201_def pr)
  show "store (run_request ev rq chunks cf (new_handler fs0 rdb0)) = rdb0"
    unfolding run fin using rc by (simp add: po respond_201_def pr)
qed

lemma canonical_absent_while_writing:
  assumes m: "rq_method rq = POST \<or> rq_method rq = PUT"
    and tok: "rq_token rq = Auth_ok u" and ten: "rq_tenant_valid rq"
    and ct: "rq_content_type rq = Some ct" "ct \<notin> set decoder_content_types"
    and fn: "ul_check_filename ev (rq_uri_filename rq) = Some filename"
    and p: "p = join_path (project_dir ev) filename"
    and pp: "pp = part_name p (uuid_part rq)"
    and free: "map_of fs0 pp = None" and nodir: "map_of fs0 p \<noteq> Some Dir"
    and ok: "\<forall>x \<in> set chunks. \<not> snd x"
  shows "map_of (files (receive chunks (prepare ev rq (new_handler fs0 rdb0)))) p = None"
    and "map_of (files (receive chunks (prepare ev rq (new_handler fs0 rdb0)))) pp
           = Some (File (base_of (rq_method rq) (map_of fs0 p) @ concat (map fst chunks)))"
proof -
  note pr = prepare_direct[OF m tok ten ct fn p pp free nodir, of rdb0]
  have neq: "pp \<noteq> p" by (simp add: pp)
  have c1: "map_of (files (prepare ev rq (new_handler fs0 rdb0))) pp
              = Some (File (base_of (rq_method rq) (map_of fs0 p)))" by (simp add: pr(2))
  note rc = receive_ok[OF pr(1) c1 ok]
  show "map_of (files (receive chunks (prepare ev rq (new_handler fs0 rdb0)))) p = None"
    using rc neq by (simp add: pr(2))
  show "map_of (files (receive chunks (prepare ev rq (new_handler fs0 rdb0)))) pp
           = Some (File (base_of (rq_method rq) (map_of fs0 p) @ concat (map fst chunks)))"
    using rc by simp
qed

lemma write_file_run:
  assumes p: "p = join_path proj filename" and pp: "pp = part_name p uuid"
    and free: "map_of fs0 pp = None" and nodir: "map_of fs0 p \<noteq> Some Dir"
  shows "fst (write_file proj None fs0 mode filename filebody uuid)"
    and "map_of (snd (write_file proj None fs0 mode filename filebody uuid))
           = (map_of fs0)(p \<mapsto> File ((case (mode, map_of fs0 p) of
                                           (Ab_plus, Some (File old)) \<Rightarrow> old | _ \<Rightarrow> []) @ filebody))"
proof -
  have neq: "pp \<noteq> p" by (simp add: pp)
  have lx: "\<not> lexists fs0 pp" using free by (simp add: lexists_def)
  have "fst (write_file proj None fs0 mode filename filebody uuid)
      \<and> map_of (snd (write_file proj None fs0 mode filename filebody uuid))
           = (map_of fs0)(p \<mapsto> File ((case (mode, map_of fs0 p) of
                                           (Ab_plus, Some (File old)) \<Rightarrow> old | _ \<Rightarrow> []) @ filebody))"
  proof (cases "map_of fs0 p")
    case None
    then show ?thesis
      unfolding write_file_def Let_def p[symmetric] pp[symmetric]
      using lx neq free
      by (cases mode)
         (auto simp: lexists_def os_open_def fs_append_def os_rename_def isdir_def
                     map_of_update map_of_delete fun_eq_iff)
  next
    case (Some n)
    with nodir obtain old where old: "map_of fs0 p = Some (File old)" by (cases n) auto
    show ?thesis
      unfolding write_file_def Let_def p[symmetric] pp[symmetric]
      using lx neq free old
      by (cases mode)
         (auto simp: lexists_def os_open_def fs_append_def os_rename_def isdir_def
                     map_of_update map_of_delete fun_eq_iff)
  qed
  then show "fst (write_file proj None fs0 mode filename filebody uuid)"
    and "map_of (snd (write_file proj None fs0 mode filename filebody uuid))
           = (map_of fs0)(p \<mapsto> File ((case (mode, map_of fs0 p) of
                                           (Ab_plus, Some (File old)) \<Rightarrow> old | _ \<Rightarrow> []) @ filebody))"
    by blast+
qed

text \<open>
  C6 says that a direct upload to a name that holds a file leaves the new data at the
  canonical name and the prior content, unchanged, under the \<open>.part\<close> name. The code
  moves the prior file to the \<open>.part\<close> name, opens that very file for the incoming
  data and renames it back. As amended: when the upload succeeds, the canonical name
  holds the prior content followed by the new data under \<open>POST\<close> and the new data
  alone under \<open>PUT\<close>; nothing is left under the \<open>.part\<close> name and no other path
  changes, so the prior file is not kept apart.
\<close>

theorem direct_upload_lands_at_target_and_leaves_no_part_file:
  assumes "rq_method rq = POST \<or> rq_method rq = PUT"
    and "rq_token rq = Auth_ok u" and "rq_tenant_valid rq"
    and "rq_content_type rq = Some ct" and "ct \<notin> set decoder_content_types"
    and "ul_check_filename ev (rq_uri_filename rq) = Some filename"
    and "p = join_path (project_dir ev) filename"
    and "pp = part_name p (uuid_part rq)"
    and "map_of fs0 p = Some (File old)" and "map_of fs0 pp = None"
    and "\<forall>x \<in> set chunks. \<not> snd x"
  shows "status_code (run_request ev rq chunks cf (new_handler fs0 rdb0)) = 201
       \<and> map_of (files (run_request ev rq chunks cf (new_handler fs0 rdb0)))
           = (map_of fs0)(p \<mapsto> File ((if rq_method rq = POST then old else []) @ concat (map fst chunks)))
       \<and> map_of (files (run_request ev rq chunks cf (new_handler fs0 rdb0))) pp = None"
proof -
  have nodir: "map_of fs0 p \<noteq> Some Dir" using assms(9) by simp
  note run = direct_upload_run[OF assms(1-8) assms(10) nodir assms(11), of cf rdb0]
  have base: "base_of (rq_method rq) (map_of fs0 p) = (if rq_method rq = POST then old else [])"
    using assms(1,9) by (auto simp: base_of_def)
  have neq: "pp \<noteq> p" using assms(8) by simp
  show ?thesis using run(1,2) assms(10) neq by (simp add: base)
qed

theorem direct_upload_lands_at_target_and_leaves_no_part_file_witness:
  "status_code (run_request up_env put_request [(''new'', False)] None (new_handler disk_with_old [])) = 201
   \<and> map_of (files (run_request up_env put_request [(''new'', False)] None (new_handler disk_with_old [])))
        ''/p11/hello.bin'' = Some (File ''new'')
   \<and> map_of (files (run_request up_env put_request [(''new'', False)] None (new_handler disk_with_old [])))
        ''/p11/hello.bin.u1.part'' = None"
proof -
  have h: "rq_method put_request = POST \<or> rq_method put_request = PUT"
    "rq_token put_request = Auth_ok ''alice''" "rq_tenant_valid put_request"
    "rq_content_type put_request = Some ''application/octet-stream''"
    "''application/octet-stream'' \<notin> set decoder_content_types"
    "ul_check_filename up_env (rq_uri_filename put_request) = Some ''hello.bin''"
    "''/p11/hello.bin'' = join_path (project_dir up_env) ''hello.bin''"
    "''/p11/hello.bin.u1.part'' = part_name ''/p11/hello.bin'' (uuid_part put_request)"
    "map_of disk_with_old ''/p11/hello.bin'' = Some (File ''old'')"
    "map_of disk_with_old ''/p11/hello.bin.u1.part'' = None"
    "\<forall>x \<in> set [(''new'', False)]. \<not> snd x"
    by (simp_all add: put_request_def up_env_def decoder_content_types_def join_path_def
          part_name_def disk_with_old_def)
  have m: "rq_method put_request = PUT" by (simp add: put_request_def)
  show ?thesis
    using direct_upload_lands_at_target_and_leaves_no_part_file[OF h, of None "[]"]
    by (simp add: m h(10))
qed

text \<open>
  The claim as stated fails for a \<open>PUT\<close> of \<open>new\<close> over a file that holds \<open>old\<close>: the
  request succeeds, the disk holds the directory and the new file only, and the
  \<open>.part\<close> name does not hold the prior content.
\<close>

theorem prior_file_not_kept_under_part_name_counterexample:
  "status_code (run_request up_env put_request [(''new'', False)] None (new_handler disk_with_old [])) = 201
   \<and> files (run_request up_env put_request [(''new'', False)] None (new_handler disk_with_old []))
       = [(''/p11'', Dir), (''/p11/hello.bin'', File ''new'')]
   \<and> map_of (files (run_request up_env put_request [(''new'', False)] None (new_handler disk_with_old [])))
        ''/p11/hello.bin.u1.part'' \<noteq> Some (File ''old'')"
  by code_simp

text \<open>
  C7 (atomic commit): the canonical path never holds a partially received body. When
  every write succeeds this is so (\<open>canonical_absent_while_writing\<close>). When a write
  fails, \<open>data_received\<close> closes the file and renames it to the canonical name: a
  \<open>PUT\<close> of \<open>abcd\<close> in two chunks whose second write raises leaves \<open>ab\<close> at the
  canonical path.
\<close>

theorem write_fault_publishes_partial_body:
  "files (run_request up_env put_request [(''ab'', False), (''cd'', True)] None (new_handler [(''/p11'', Dir)] []))
     = [(''/p11'', Dir), (''/p11/hello.bin'', File ''ab'')]"
  by code_simp

text \<open>
  C10 says that \<open>POST\<close> opens the destination in append mode and \<open>PUT\<close> and \<open>PATCH\<close>
  in truncating mode. That is the table of \<open>StreamHandler.prepare\<close>; in
  \<open>FormDataHandler\<close>, \<open>PATCH\<close> appends like \<open>POST\<close>. As amended: the two tables, and
  for an existing file the content after a successful upload: the old bytes followed
  by the new ones in append mode, the new ones alone in truncating mode.
\<close>

theorem open_mode_by_method:
  assumes "rq_method rq = POST \<or> rq_method rq = PUT"
    and "rq_token rq = Auth_ok u" and "rq_tenant_valid rq"
    and "rq_content_type rq = Some ct" and "ct \<notin> set decoder_content_types"
    and "ul_check_filename ev (rq_uri_filename rq) = Some filename"
    and "p = join_path (project_dir ev) filename"
    and "pp = part_name p (uuid_part rq)"
    and "map_of fs0 p = Some (File old)" and "map_of fs0 pp = None"
    and "\<forall>x \<in> set chunks. \<not> snd x"
  shows "filemode_of POST = Some Ab_plus \<and> filemode_of PUT = Some Wb_plus
       \<and> filemode_of PATCH = Some Wb_plus
       \<and> form_filemode POST = Some Ab_plus \<and> form_filemode PATCH = Some Ab_plus
       \<and> form_filemode PUT = Some Wb_plus
       \<and> map_of (files (run_request ev rq chunks cf (new_handler fs0 rdb0))) p
           = Some (File ((case filemode_of (rq_method rq) of Some Ab_plus \<Rightarrow> old | _ \<Rightarrow> [])
                         @ concat (map fst chunks)))
       \<and> map_of (snd (write_file (project_dir ev) None fs0 Ab_plus filename filebody (uuid_part rq))) p
           = Some (File (old @ filebody))
       \<and> map_of (snd (write_file (project_dir ev) None fs0 Wb_plus filename filebody (uuid_part rq))) p
           = Some (File filebody)"
proof -
  have nodir: "map_of fs0 p \<noteq> Some Dir" using assms(9) by simp
  note run = direct_upload_run[OF assms(1-8) assms(10) nodir assms(11), of cf rdb0]
  note wf = write_file_run(2)[OF assms(7,8,10) nodir]
  have base: "base_of (rq_method rq) (map_of fs0 p)
              = (case filemode_of (rq_method rq) of Some Ab_plus \<Rightarrow> old | _ \<Rightarrow> [])"
    using assms(1,9) by (auto simp: base_of_def filemode_of_def)
  have tab: "filemode_of POST = Some Ab_plus \<and> filemode_of PUT = Some Wb_plus
       \<and> filemode_of PATCH = Some Wb_plus
       \<and> form_filemode POST = Some Ab_plus \<and> form_filemode PATCH = Some Ab_plus
       \<and> form_filemode PUT = Some Wb_plus"
    by (simp add: filemode_of_def form_filemode_def)
  have s: "map_of (files (run_request ev rq chunks cf (new_handler fs0 rdb0))) p
           = Some (File ((case filemode_of (rq_method rq) of Some Ab_plus \<Rightarrow> old | _ \<Rightarrow> [])
                         @ concat (map fst chunks)))"
    by (simp add: run(1) base)
  have a: "map_of (snd (write_file (project_dir ev) None fs0 Ab_plus filename filebody (uuid_part rq))) p
           = Some (File (old @ filebody))"
    by (simp add: wf assms(9))
  have w: "map_of (snd (write_file (project_dir ev) None fs0 Wb_plus filename filebody (uuid_part rq))) p
           = Some (File filebody)"
    by (simp add: wf assms(9))
  from tab s a w show ?thesis by blast
qed

theorem open_mode_by_method_witness:
  "map_of (files (run_request up_env (put_request\<lparr>rq_method := POST\<rparr>) [(''new'', False)] None
             (new_handler disk_with_old []))) ''/p11/hello.bin'' = Some (File ''oldnew'')
   \<and> map_of (snd (write_file ''/p11'' None disk_with_old Wb_plus ''hello.bin'' ''new'' ''u1''))
        ''/p11/hello.bin'' = Some (File ''new'')"
proof -
  let ?rq = "put_request\<lparr>rq_method := POST\<rparr>"
  have h: "rq_method ?rq = POST \<or> rq_method ?rq = PUT"
    "rq_token ?rq = Auth_ok ''alice''" "rq_tenant_valid ?rq"
    "rq_content_type ?rq = Some ''application/octet-stream''"
    "''application/octet-stream'' \<notin> set decoder_content_types"
    "ul_check_filename up_env (rq_uri_filename ?rq) = Some ''hello.bin''"
    "''/p11/hello.bin'' = join_path (project_dir up_env) ''hello.bin''"
    "''/p11/hello.bin.u1.part'' = part_name ''/p11/hello.bin'' (uuid_part ?rq)"
    "map_of disk_with_old ''/p11/hello.bin'' = Some (File ''old'')"
    "map_of disk_with_old ''/p11/hello.bin.u1.part'' = None"
    "\<forall>x \<in> set [(''new'', False)]. \<not> snd x"
    by (simp_all add: put_request_def up_env_def decoder_content_types_def join_path_def
          part_name_def disk_with_old_def)
  have m: "rq_method ?rq = POST" "project_dir up_env = ''/p11''" "uuid_part ?rq = ''u1''"
    by (simp_all add: put_request_def up_env_def)
  show ?thesis
    using open_mode_by_method[OF h, of None "[]" "''new''"]
    by (simp add: m filemode_of_def)
qed

text \<open>
  The claim as stated fails for a form upload with \<open>PATCH\<close>: the mode is \<open>'ab+'\<close> and
  the new bytes follow the old ones.
\<close>

theorem form_patch_appends_counterexample:
  "form_filemode PATCH = Some Ab_plus
   \<and> form_filemode PATCH \<noteq> Some Wb_plus
   \<and> handle_data Some ''/p11'' None Ab_plus [(''hello.bin'', ''new'', ''u1'')] disk_with_old
       = ((201, ''data uploaded''), [(''/p11'', Dir), (''/p11/hello.bin'', File ''oldnew'')])"
  by code_simp

section \<open>Resumable uploads\<close>

text \<open>
  The run of a \<open>PATCH\<close> request for a chunk after the first: refused by the order
  check, or received, renamed and merged.
\<close>

lemma sorted_wrt_le_last:
  "sorted_wrt (\<lambda>a b. f a \<le> (f b :: int)) xs \<Longrightarrow> x \<in> set xs \<Longrightarrow> f x \<le> f (last xs)"
  by (induction xs) auto

lemma last_chunk_is_highest:
  assumes ls: "os_listdir fs0 d = Inr names"
    and srt: "sorts_by_chunk_number (natural_sort ev) names"
    and hi: "highest_chunk_on_disk fs0 d = Some m"
  shows "last_chunk_on_disk ev fs0 d = Some m"
proof -
  let ?full = "completed_chunks (natural_sort ev names)"
  let ?orig = "completed_chunks names"
  let ?f = "\<lambda>c. the (chunk_number c)"
  have seteq: "set ?full = set ?orig"
    using srt by (auto simp: sorts_by_chunk_number_def completed_chunks_def)
  have ne: "?orig \<noteq> []" and parse: "None \<notin> set (map chunk_number ?orig)"
    and m: "m = Max (set (map the (map chunk_number ?orig)))"
    using hi ls by (auto simp: highest_chunk_on_disk_def Let_def split: if_splits)
  have fne: "?full \<noteq> []" using seteq ne by (metis set_empty)
  then have lin: "last ?full \<in> set ?full" by simp
  have ub: "?f x \<le> ?f (last ?full)" if "x \<in> set ?full" for x
    using srt that by (intro sorted_wrt_le_last) (simp_all add: sorts_by_chunk_number_def)
  have img: "set (map the (map chunk_number ?orig)) = ?f ` set ?full"
    using seteq by auto
  have mx: "Max (?f ` set ?full) = ?f (last ?full)"
    using lin ub by (intro Max_eqI) auto
  have "last ?full \<in> set ?orig" using lin seteq by simp
  then have "chunk_number (last ?full) \<in> set (map chunk_number ?orig)" by simp
  with parse have "chunk_number (last ?full) \<noteq> None" by metis
  then have "chunk_number (last ?full) = Some m"
    using m img mx by auto
  then show ?thesis
    using ls fne by (simp add: last_chunk_on_disk_def chunk_number_def completed_chunks_def Let_def)
qed

lemma refuse_by_last_chunk:
  assumes "last_chunk_on_disk ev (files h) (join_path proj upload) = Some m"
  shows "refuse_upload_if_not_in_sequential_order ev h proj upload k =
           (if k = m + 1 then (Inr (), h)
            else (Inl Exception, h\<lparr>self_chunk_order_correct := Some False\<rparr>))"
  using assms
  unfolding refuse_upload_if_not_in_sequential_order_def last_chunk_on_disk_def
  by (auto simp: Let_def split: sum.splits if_splits option.splits)

lemma py_int_not_end: "py_int cs = Some k \<Longrightarrow> cs \<noteq> ''end''"
  by (auto simp: py_int_def digit_val_def)

lemma handle_resumable_later_chunk:
  assumes ch: "rq_chunk rq = Some cs" and k: "py_int cs = Some k" "1 < k"
    and id: "rq_id rq = Some upload" and grp: "rq_group rq = Some g"
    and fresh: "\<not> lexists (files h0) (chunk_file_name filename cs)"
    and m: "last_chunk_on_disk ev (files h0) (join_path proj upload) = Some m"
  shows "handle_resumable_request ev rq h0 proj filename =
           (if k = m + 1
            then (Inr (Some (join_path upload (chunk_file_name filename cs))),
                  h0\<lparr>self_chunk_order_correct := Some True, self_chunk_num := Some (Chunk_no k),
                     self_upload_id := Some upload, self_resumable_is_complete := False\<rparr>)
            else (Inl Exception,
                  h0\<lparr>self_chunk_order_correct := Some False, self_chunk_num := Some (Chunk_no k),
                     self_upload_id := Some upload, self_resumable_is_complete := False\<rparr>))"
proof -
  let ?h1 = "h0\<lparr>self_chunk_order_correct := Some True, self_chunk_num := Some (Chunk_no k),
                     self_upload_id := Some upload, self_resumable_is_complete := False\<rparr>"
  have ne: "cs \<noteq> ''end''" by (rule py_int_not_end[OF k(1)])
  have f: "files ?h1 = files h0" by simp
  have r: "refuse_upload_if_not_in_sequential_order ev ?h1 proj upload k =
           (if k = m + 1 then (Inr (), ?h1)
            else (Inl Exception, ?h1\<lparr>self_chunk_order_correct := Some False\<rparr>))"
    by (rule refuse_by_last_chunk) (simp add: m)
  have k1: "k \<noteq> 1" using k(2) by simp
  show ?thesis
    unfolding handle_resumable_request_def Let_def
    using fresh ne k1 k(2) r
    by (simp add: ch id grp k(1))
qed

lemma new_handler_reset:
  "(new_handler fs0 rdb0)\<lparr>self_resumable_is_complete := True, self_merged_file := None,
       self_target_file := None, self_custom_content_type := None,
       self_path := None, self_path_part := None,
       self_chunk_order_correct := None\<rparr> = new_handler fs0 rdb0"
  by (simp add: new_handler_def)

lemma prepare_patch_raised:
  assumes "rq_method rq = PATCH" and "rq_token rq = Auth_ok u" and "rq_tenant_valid rq"
    and "rq_content_type rq = Some ct"
    and "ul_check_filename ev (rq_uri_filename rq) = Some filename"
    and "handle_resumable_request ev rq (new_handler fs0 rdb0) (project_dir ev) filename = (Inl e, h1)"
    and "self_path h1 = None" and "self_target_file h1 = None"
  shows "prepare ev rq (new_handler fs0 rdb0) = prepare_finish h1"
proof -
  have pt: "prepare_try ev rq (new_handler fs0 rdb0) = (Inl e, h1)"
    unfolding prepare_try_def by (simp add: assms)
  have ct: "close_target h1 = h1" using assms(8) by (simp add: close_target_def)
  have rn: "rename_path_to_path_part h1 = Inl TypeError"
    using assms(7) by (simp add: rename_path_to_path_part_def)
  show ?thesis
    unfolding prepare_def Let_def new_handler_reset
    by (simp add: assms(2) pt ct rn)
qed

lemma refused_run:
  assumes pa: "rq_method rq = PATCH" and tok: "rq_token rq = Auth_ok u" and ten: "rq_tenant_valid rq"
    and ct: "rq_content_type rq = Some ct"
    and fn: "ul_check_filename ev (rq_uri_filename rq) = Some filename"
    and ch: "rq_chunk rq = Some cs" and k: "py_int cs = Some k" "1 < k"
    and id: "rq_id rq = Some upload" and grp: "rq_group rq = Some g"
    and fresh: "\<not> lexists fs0 (chunk_file_name filename cs)"
    and m: "last_chunk_on_disk ev fs0 (join_path (project_dir ev) upload) = Some m"
    and bad: "k \<noteq> m + 1"
  shows "run_request ev rq chunks cf (new_handler fs0 rdb0) =
           (new_handler fs0 rdb0)\<lparr>self_chunk_order_correct := Some False,
              self_chunk_num := Some (Chunk_no k), self_upload_id := Some upload,
              self_resumable_is_complete := False, status_code := 200,
              written := [J_message ''chunk_order_incorrect''], finished := True\<rparr>"
proof -
  let ?h0 = "new_handler fs0 rdb0"
  let ?h1 = "?h0\<lparr>self_chunk_order_correct := Some False, self_chunk_num := Some (Chunk_no k),
                     self_upload_id := Some upload, self_resumable_is_complete := False\<rparr>"
  have f0: "files ?h0 = fs0" by (simp add: new_handler_def)
  have hr: "handle_resumable_request ev rq ?h0 (project_dir ev) filename = (Inl Exception, ?h1)"
    using handle_resumable_later_chunk[OF ch k id grp, of ?h0 filename ev "project_dir ev" m]
      fresh m bad by (simp add: f0)
  have pr: "prepare ev rq ?h0 = prepare_finish ?h1"
    by (rule prepare_patch_raised[OF pa tok ten ct fn hr]) (simp_all add: new_handler_def)
  have pf: "prepare_finish ?h1 = ?h1\<lparr>status_code := 200,
              written := [J_message ''chunk_order_incorrect''], finished := True\<rparr>"
    by (simp add: prepare_finish_def new_handler_def)
  show ?thesis
    unfolding run_request_def Let_def pr pf
    by (simp add: on_finish_def new_handler_def)
qed

lemma join_path_assoc: "join_path (join_path a b) c = join_path a (join_path b c)"
  by (simp add: join_path_def)

lemma lock_neq [simp]: "lock_name out \<noteq> out" "out \<noteq> lock_name out"
  by (simp_all add: lock_name_def)

lemma lock_neq_chunk:
  "lock_name (merged_name proj filename upload)
     \<noteq> join_path proj (join_path upload (chunk_file_name filename cs))"
proof
  assume "lock_name (merged_name proj filename upload)
     = join_path proj (join_path upload (chunk_file_name filename cs))"
  then have "length (lock_name (merged_name proj filename upload))
     = length (join_path proj (join_path upload (chunk_file_name filename cs)))" by simp
  then show False
    by (simp add: lock_name_def merged_name_def join_path_def chunk_file_name_def)
qed

lemma merge_try_ok:
  assumes "1 < k"
    and "map_of fs out = Some (File merged)" and "map_of fs out_lock = None"
    and "map_of fs chunk = Some (File c)" and "chunk \<noteq> out_lock" and "out \<noteq> out_lock"
    and "chunk \<noteq> out"
    and "map_of rdb upload = Some urec"
  shows "merge_try None fs rdb out out_lock chunk upload k =
           (True, Some (length merged),
            AList.update out (File (merged @ c)) (AList.update out_lock (File merged) fs),
            AList.update upload (urec\<lparr>rows := rows urec @ [(k, length c)]\<rparr>) rdb)"
  using assms
  by (simp add: merge_try_def os_link_def lexists_def os_open_def map_of_update file_size_def
                fs_append_def resumable_db_update_with_chunk_info_def Let_def)

lemma merged_neq_chunk:
  "merged_name proj filename upload
     \<noteq> join_path proj (join_path upload (chunk_file_name filename cs))"
proof
  assume "merged_name proj filename upload
     = join_path proj (join_path upload (chunk_file_name filename cs))"
  then have "length (merged_name proj filename upload)
     = length (join_path proj (join_path upload (chunk_file_name filename cs)))" by simp
  then show False
    by (simp add: merged_name_def join_path_def chunk_file_name_def)
qed

lemma merge_resumables_ok:
  assumes np: "names_parse filename cs k" and k: "1 < k"
    and lcf: "lcf = chunk_file_name filename cs"
    and out: "out = merged_name proj filename upload"
    and chunk: "chunk = join_path proj (join_path upload lcf)"
    and mo: "map_of (files h) out = Some (File merged)"
    and ml: "map_of (files h) (lock_name out) = None"
    and mc: "map_of (files h) chunk = Some (File c)"
    and rdb: "map_of (store h) upload = Some urec"
    and prune: "5 \<le> k \<longrightarrow> (\<exists>oc. map_of (files h) (pruned_chunk chunk k) = Some (File oc))
                         \<and> pruned_chunk chunk k \<noteq> out"
  shows "\<exists>fs'. merge_resumables None h proj lcf upload =
           (Inr (py_replace (''.'' @ upload) [] out),
            h\<lparr>files := fs',
              store := AList.update upload (urec\<lparr>rows := rows urec @ [(k, length c)]\<rparr>) (store h)\<rparr>)
         \<and> map_of fs' = (if 5 \<le> k
                         then ((map_of (files h))(out \<mapsto> File (merged @ c)))(pruned_chunk chunk k := None)
                         else (map_of (files h))(out \<mapsto> File (merged @ c)))"
proof -
  let ?lock = "lock_name out"
  let ?fs1 = "AList.update out (File (merged @ c)) (AList.update ?lock (File merged) (files h))"
  let ?rdb1 = "AList.update upload (urec\<lparr>rows := rows urec @ [(k, length c)]\<rparr>) (store h)"
  let ?fs3 = "AList.delete ?lock ?fs1"
  have p1: "\<not> py_in ''.part'' lcf" "\<not> py_in ''.chunk.end'' lcf"
    "basename (hd (py_split ''.chunk'' lcf)) = filename"
    "py_int (last (py_split ''.chunk.'' lcf)) = Some k"
    using np by (simp_all add: names_parse_def Let_def lcf)
  have c_lock: "chunk \<noteq> ?lock" using lock_neq_chunk[of proj filename upload cs]
    by (auto simp: chunk out lcf)
  have c_out: "chunk \<noteq> out" using merged_neq_chunk[of proj filename upload cs]
    by (auto simp: chunk out lcf)
  have mt: "merge_try None (files h) (store h) out ?lock chunk upload k =
              (True, Some (length merged), ?fs1, ?rdb1)"
    by (rule merge_try_ok[OF k mo ml mc c_lock _ c_out rdb]) simp
  have ul: "unlink_quietly ?fs1 ?lock = ?fs3"
    by (simp add: unlink_quietly_def os_remove_def map_of_update)
  have m3: "map_of ?fs3 = (map_of (files h))(out \<mapsto> File (merged @ c))"
    using ml by (auto simp: map_of_update map_of_delete fun_eq_iff)
  have cj: "join_path (join_path proj upload) lcf = chunk" by (simp add: chunk join_path_assoc)
  show ?thesis
  proof (cases "5 \<le> k")
    case False
    have "merge_resumables None h proj lcf upload =
           (Inr (py_replace (''.'' @ upload) [] out), h\<lparr>files := ?fs3, store := ?rdb1\<rparr>)"
      unfolding merge_resumables_def Let_def
      using False by (simp add: p1 out[symmetric] cj mt ul)
    with m3 False show ?thesis by auto
  next
    case True
    with prune obtain oc where oc: "map_of (files h) (pruned_chunk chunk k) = Some (File oc)"
      and po: "pruned_chunk chunk k \<noteq> out" by blast
    have rm: "os_remove ?fs3 (pruned_chunk chunk k) = Inr (AList.delete (pruned_chunk chunk k) ?fs3)"
      using oc po by (simp add: os_remove_def m3)
    have "merge_resumables None h proj lcf upload =
           (Inr (py_replace (''.'' @ upload) [] out),
            h\<lparr>files := AList.delete (pruned_chunk chunk k) ?fs3, store := ?rdb1\<rparr>)"
      unfolding merge_resumables_def Let_def
      using True rm by (simp add: p1 out[symmetric] cj mt ul pruned_chunk_def)
    moreover have "map_of (AList.delete (pruned_chunk chunk k) ?fs3)
       = ((map_of (files h))(out \<mapsto> File (merged @ c)))(pruned_chunk chunk k := None)"
      by (subst map_of_delete) (simp only: m3)
    ultimately show ?thesis using True by auto
  qed
qed

lemma split_from_nonempty: "split_from sep cur s \<noteq> []"
  by (induction sep cur s rule: split_from.induct) auto

lemma last_split_after_sep:
  "last (split_from [c] cur (a @ c # x)) = last (split_from [c] [] x)"
proof (induction a arbitrary: cur)
  case Nil
  show ?case by (simp add: split_from_nonempty)
next
  case (Cons y ys)
  show ?case using Cons.IH by (auto simp: split_from_nonempty)
qed

lemma basename_join_path: "basename (join_path d x) = basename x"
  using last_split_after_sep[of "CHR ''/''" "[]" d x]
  by (simp add: basename_def py_split_def join_path_def)

lemma merged_neq_part:
  "merged_name proj filename upload
     \<noteq> part_name (join_path proj (join_path upload (chunk_file_name filename cs))) uuid"
proof
  assume "merged_name proj filename upload
     = part_name (join_path proj (join_path upload (chunk_file_name filename cs))) uuid"
  then have "length (merged_name proj filename upload)
     = length (part_name (join_path proj (join_path upload (chunk_file_name filename cs))) uuid)" by simp
  then show False
    by (simp add: merged_name_def join_path_def chunk_file_name_def part_name_def)
qed

lemma lock_neq_part:
  "lock_name (merged_name proj filename upload)
     \<noteq> part_name (join_path proj (join_path upload (chunk_file_name filename cs))) uuid"
proof
  assume "lock_name (merged_name proj filename upload)
     = part_name (join_path proj (join_path upload (chunk_file_name filename cs))) uuid"
  then have "length (lock_name (merged_name proj filename upload))
     = length (part_name (join_path proj (join_path upload (chunk_file_name filename cs))) uuid)" by simp
  then show False
    by (simp add: lock_name_def merged_name_def join_path_def chunk_file_name_def part_name_def)
qed

lemma prepare_try_patch:
  assumes m: "rq_method rq = PATCH"
    and ten: "rq_tenant_valid rq"
    and ct: "rq_content_type rq = Some ct" "ct \<notin> set decoder_content_types"
    and fn: "ul_check_filename ev (rq_uri_filename rq) = Some filename"
    and hr: "handle_resumable_request ev rq h0 (project_dir ev) filename = (Inr (Some fn1), h1)"
    and p: "p = join_path (project_dir ev) fn1"
    and pp: "pp = part_name p (uuid_part rq)"
    and free: "map_of (files h1) pp = None" and nop: "map_of (files h1) p = None"
    and mf: "self_merged_file h1 = None"
  shows "prepare_try ev rq h0 =
           open_target (h1\<lparr>self_custom_content_type := None,
                           self_path := Some pp, self_path_part := Some p\<rparr>)
                       (Some Wb_plus)"
proof -
  have lx: "\<not> lexists (files h1) pp" "\<not> lexists (files h1) p"
    using free nop by (simp_all add: lexists_def)
  show ?thesis
    unfolding prepare_try_def
    by (simp add: ten ct(1) fn m hr Let_def dispatch_plain[OF ct(2)] mf p[symmetric] pp[symmetric] lx
                  filemode_of_def)
       (intro arg_cong2[where f=open_target] handler.equality; simp)
qed

lemma receive_all:
  assumes "writing_to h pp p" and "map_of (files h) pp = Some (File c)"
    and "\<forall>x \<in> set chunks. \<not> snd x"
  shows "\<exists>fs'. receive chunks h = h\<lparr>files := fs'\<rparr>
              \<and> map_of fs' = (map_of (files h))(pp \<mapsto> File (c @ concat (map fst chunks)))"
  using assms
proof (induction chunks arbitrary: h c)
  case Nil
  show ?case by (rule exI[where x="files h"]) (use Nil in \<open>auto simp: fun_eq_iff\<close>)
next
  case (Cons x chunks)
  obtain chunk wf where x: "x = (chunk, wf)" by (cases x)
  with Cons.prems have wf: "\<not> wf" by simp
  let ?h = "h\<lparr>files := AList.update pp (File (c @ chunk)) (files h)\<rparr>"
  have step: "data_received h chunk False = ?h"
    by (rule data_received_ok[OF Cons.prems(1,2)])
  have nf: "\<not> connection_closed h" using Cons.prems(1) by (simp add: writing_to_def)
  have w: "writing_to ?h pp p" using Cons.prems(1) by (simp add: writing_to_def)
  have mp: "map_of (files ?h) pp = Some (File (c @ chunk))" by (simp add: map_of_update)
  have rest: "\<forall>x \<in> set chunks. \<not> snd x" using Cons.prems(3) by simp
  have rc: "receive (x # chunks) h = receive chunks ?h"
    using wf nf step by (simp add: x)
  from Cons.IH[OF w mp rest] obtain fs' where
    fs': "receive chunks ?h = ?h\<lparr>files := fs'\<rparr>"
      "map_of fs' = (map_of (files ?h))(pp \<mapsto> File ((c @ chunk) @ concat (map fst chunks)))"
    by blast
  have e1: "receive (x # chunks) h = h\<lparr>files := fs'\<rparr>"
    unfolding rc fs'(1) by simp
  have e2: "map_of fs' = (map_of (files h))(pp \<mapsto> File (c @ concat (map fst (x # chunks))))"
    unfolding fs'(2) by (auto simp: x map_of_update fun_eq_iff)
  show ?case using e1 e2 by blast
qed

lemma patch_ok:
  assumes w: "writing_to h pp p"
    and up: "self_upload_id h = Some upload" and cn: "self_chunk_num h = Some (Chunk_no k)"
    and np: "names_parse filename cs k" and k: "1 < k"
    and lcf: "lcf = chunk_file_name filename cs"
    and p: "p = join_path (project_dir ev) (join_path upload lcf)"
    and out: "out = merged_name (project_dir ev) filename upload"
    and mpp: "map_of (files h) pp = Some (File c)" and mp: "map_of (files h) p = None"
    and mo: "map_of (files h) out = Some (File merged)" and opp: "out \<noteq> pp"
    and ml: "map_of (files h) (lock_name out) = None"
    and rdb: "map_of (store h) upload = Some urec"
    and prune: "5 \<le> k \<longrightarrow> (\<exists>oc. map_of (files h) (pruned_chunk p k) = Some (File oc))
                         \<and> pruned_chunk p k \<noteq> out \<and> pruned_chunk p k \<noteq> pp"
  shows "\<exists>fs'. patch None ev h =
            respond_201 (h\<lparr>self_target_file := Some \<lparr>fo_path = pp, fo_closed = True\<rparr>,
                           files := fs',
                           store := AList.update upload (urec\<lparr>rows := rows urec @ [(k, length c)]\<rparr>) (store h)\<rparr>)
                        (J_chunk filename upload (Some (Chunk_no k)))
          \<and> map_of fs' = (if 5 \<le> k
                          then ((map_of (files h))(pp := None, p \<mapsto> File c, out \<mapsto> File (merged @ c)))
                                 (pruned_chunk p k := None)
                          else (map_of (files h))(pp := None, p \<mapsto> File c, out \<mapsto> File (merged @ c)))"
proof -
  let ?fsR = "AList.update p (File c) (AList.delete pp (files h))"
  let ?hc = "h\<lparr>self_target_file := Some \<lparr>fo_path = pp, fo_closed = True\<rparr>\<rparr>"
  let ?hR = "?hc\<lparr>files := ?fsR\<rparr>"
  have ct: "close_target h = ?hc" using w by (simp add: close_target_def writing_to_def)
  have rn: "os_rename (files h) pp p = Inr ?fsR"
    using mpp mp by (simp add: os_rename_def isdir_def)
  have mR: "map_of ?fsR = (map_of (files h))(pp := None, p \<mapsto> File c)"
    by (simp add: map_of_update map_of_delete)
  have op: "out \<noteq> p" using merged_neq_chunk[of "project_dir ev" filename upload cs]
    by (simp add: out p lcf)
  have lp: "lock_name out \<noteq> p" using lock_neq_chunk[of "project_dir ev" filename upload cs]
    by (simp add: out p lcf)
  have bn: "basename p = lcf"
    using np by (simp add: p basename_join_path names_parse_def Let_def lcf)
  have hd: "hd (py_split ''.chunk'' lcf) = filename"
    using np by (simp add: names_parse_def Let_def lcf)
  have a1: "map_of (files ?hR) out = Some (File merged)" using mo op opp by (simp add: mR)
  have a2: "map_of (files ?hR) (lock_name out) = None" using ml lp by (simp add: mR)
  have a3: "map_of (files ?hR) p = Some (File c)" by (simp add: mR)
  have a4: "map_of (store ?hR) upload = Some urec" using rdb by simp
  have a5: "5 \<le> k \<longrightarrow> (\<exists>oc. map_of (files ?hR) (pruned_chunk p k) = Some (File oc))
                         \<and> pruned_chunk p k \<noteq> out"
    using prune mp by (auto simp: mR)
  from merge_resumables_ok[OF np k lcf out p a1 a2 a3 a4 a5]
  obtain fs' where mg: "merge_resumables None ?hR (project_dir ev) lcf upload =
           (Inr (py_replace (''.'' @ upload) [] out),
            ?hR\<lparr>files := fs',
              store := AList.update upload (urec\<lparr>rows := rows urec @ [(k, length c)]\<rparr>) (store ?hR)\<rparr>)"
     and mf: "map_of fs' = (if 5 \<le> k
                         then ((map_of (files ?hR))(out \<mapsto> File (merged @ c)))(pruned_chunk p k := None)
                         else (map_of (files ?hR))(out \<mapsto> File (merged @ c)))"
    by blast
  have lx: "\<not> lexists (files ?hc) p" using mp by (simp add: lexists_def)
  have pt: "patch None ev h =
            respond_201 (h\<lparr>self_target_file := Some \<lparr>fo_path = pp, fo_closed = True\<rparr>,
                           files := fs',
                           store := AList.update upload (urec\<lparr>rows := rows urec @ [(k, length c)]\<rparr>) (store h)\<rparr>)
                        (J_chunk filename upload (Some (Chunk_no k)))"
    unfolding patch_def
    using w up cn lx rn mg
    by (simp add: writing_to_def ct bn hd Let_def)
  show ?thesis
    by (rule exI[where x=fs']) (simp add: pt mf mR)
qed

lemma accepted_run:
  assumes pa: "rq_method rq = PATCH" and tok: "rq_token rq = Auth_ok u" and ten: "rq_tenant_valid rq"
    and ct: "rq_content_type rq = Some ct" "ct \<notin> set decoder_content_types"
    and fn: "ul_check_filename ev (rq_uri_filename rq) = Some filename"
    and ch: "rq_chunk rq = Some cs" and k: "py_int cs = Some k" "1 < k"
    and id: "rq_id rq = Some upload" and grp: "rq_group rq = Some g"
    and fresh: "\<not> lexists fs0 (chunk_file_name filename cs)"
    and m: "last_chunk_on_disk ev fs0 (join_path (project_dir ev) upload) = Some m"
    and good: "k = m + 1"
    and np: "names_parse filename cs k"
    and p: "p = join_path (project_dir ev) (join_path upload (chunk_file_name filename cs))"
    and pp: "pp = part_name p (uuid_part rq)"
    and out: "out = merged_name (project_dir ev) filename upload"
    and free: "map_of fs0 pp = None" and nop: "map_of fs0 p = None"
    and mo: "map_of fs0 out = Some (File merged)"
    and ml: "map_of fs0 (lock_name out) = None"
    and rdb: "map_of rdb0 upload = Some urec"
    and prune: "5 \<le> k \<longrightarrow> (\<exists>oc. map_of fs0 (pruned_chunk p k) = Some (File oc))
                         \<and> pruned_chunk p k \<noteq> out"
    and ok: "\<forall>x \<in> set chunks. \<not> snd x"
  shows "status_code (run_request ev rq chunks None (new_handler fs0 rdb0)) = 201"
    and "written (run_request ev rq chunks None (new_handler fs0 rdb0))
           = [J_chunk filename upload (Some (Chunk_no k))]"
    and "map_of (files (run_request ev rq chunks None (new_handler fs0 rdb0)))
           = (if 5 \<le> k
              then ((map_of fs0)(p \<mapsto> File (concat (map fst chunks)),
                                 out \<mapsto> File (merged @ concat (map fst chunks))))
                     (pruned_chunk p k := None)
              else (map_of fs0)(p \<mapsto> File (concat (map fst chunks)),
                                out \<mapsto> File (merged @ concat (map fst chunks))))"
    and "store (run_request ev rq chunks None (new_handler fs0 rdb0))
           = AList.update upload
               (urec\<lparr>rows := rows urec @ [(k, length (concat (map fst chunks)))]\<rparr>) rdb0"
proof -
  let ?h0 = "new_handler fs0 rdb0"
  let ?lcf = "chunk_file_name filename cs"
  let ?body = "concat (map fst chunks)"
  let ?h1 = "?h0\<lparr>self_chunk_order_correct := Some True, self_chunk_num := Some (Chunk_no k),
                     self_upload_id := Some upload, self_resumable_is_complete := False\<rparr>"
  let ?h2 = "?h1\<lparr>self_custom_content_type := None, self_path := Some pp, self_path_part := Some p\<rparr>"
  have f0: "files ?h0 = fs0" "store ?h0 = rdb0" by (simp_all add: new_handler_def)
  have hr: "handle_resumable_request ev rq ?h0 (project_dir ev) filename
              = (Inr (Some (join_path upload ?lcf)), ?h1)"
    using handle_resumable_later_chunk[OF ch k id grp, of ?h0 filename ev "project_dir ev" m]
      fresh m good by (simp add: f0)
  have pt: "prepare_try ev rq ?h0 = open_target ?h2 (Some Wb_plus)"
    by (rule prepare_try_patch[OF pa ten ct fn hr p pp])
       (simp_all add: new_handler_def free nop)
  have "self_path ?h2 = Some pp" by simp
  moreover have "map_of (files ?h2) pp \<noteq> Some Dir" using free by (simp add: new_handler_def)
  ultimately obtain fs1 where fs1:
    "open_target ?h2 (Some Wb_plus)
       = (Inr (), ?h2\<lparr>files := fs1, self_target_file := Some \<lparr>fo_path = pp, fo_closed = False\<rparr>\<rparr>)"
    "map_of fs1 = (map_of (files ?h2))(pp \<mapsto> File (case (Wb_plus, map_of (files ?h2) pp) of
                                                            (Ab_plus, Some (File old)) \<Rightarrow> old | _ \<Rightarrow> []))"
    using open_target_ok by blast
  let ?hA = "?h2\<lparr>files := fs1, self_target_file := Some \<lparr>fo_path = pp, fo_closed = False\<rparr>\<rparr>"
  have m1: "map_of fs1 = (map_of fs0)(pp \<mapsto> File [])"
    using fs1(2) by (simp add: new_handler_def)
  have prep: "prepare ev rq ?h0 = ?hA"
    unfolding prepare_def Let_def new_handler_reset by (simp add: tok pt fs1(1))
  have wA: "writing_to ?hA pp p" by (simp add: writing_to_def new_handler_def)
  have cA: "map_of (files ?hA) pp = Some (File [])" by (simp add: m1)
  from receive_all[OF wA cA ok] obtain fs2 where
    rc: "receive chunks ?hA = ?hA\<lparr>files := fs2\<rparr>"
    and m2: "map_of fs2 = (map_of (files ?hA))(pp \<mapsto> File ([] @ ?body))" by blast
  let ?hB = "?hA\<lparr>files := fs2\<rparr>"
  have m2': "map_of fs2 = (map_of fs0)(pp \<mapsto> File ?body)" using m2 by (simp add: m1)
  have neq: "pp \<noteq> p" by (simp add: pp)
  have opp: "out \<noteq> pp" using merged_neq_part[of "project_dir ev" filename upload cs "uuid_part rq"]
    by (simp add: out pp p)
  have lpp: "lock_name out \<noteq> pp"
    using lock_neq_part[of "project_dir ev" filename upload cs "uuid_part rq"]
    by (simp add: out pp p)
  have wB: "writing_to ?hB pp p" by (simp add: writing_to_def new_handler_def)
  have b1: "map_of (files ?hB) pp = Some (File ?body)" by (simp add: m2')
  have b2: "map_of (files ?hB) p = None" using nop neq by (simp add: m2')
  have b3: "map_of (files ?hB) out = Some (File merged)" using mo opp by (simp add: m2')
  have b4: "map_of (files ?hB) (lock_name out) = None" using ml lpp by (simp add: m2')
  have b5: "map_of (store ?hB) upload = Some urec" using rdb by (simp add: new_handler_def)
  have b6: "5 \<le> k \<longrightarrow> (\<exists>oc. map_of (files ?hB) (pruned_chunk p k) = Some (File oc))
                         \<and> pruned_chunk p k \<noteq> out \<and> pruned_chunk p k \<noteq> pp"
    using prune free by (auto simp: m2')
  have u1: "self_upload_id ?hB = Some upload" and c1: "self_chunk_num ?hB = Some (Chunk_no k)"
    by simp_all
  from patch_ok[OF wB u1 c1 np k(2) refl p out b1 b2 b3 opp b4 b5 b6]
  obtain fs3 where
    pt3: "patch None ev ?hB =
            respond_201 (?hB\<lparr>self_target_file := Some \<lparr>fo_path = pp, fo_closed = True\<rparr>,
                           files := fs3,
                           store := AList.update upload (urec\<lparr>rows := rows urec @ [(k, length ?body)]\<rparr>) (store ?hB)\<rparr>)
                        (J_chunk filename upload (Some (Chunk_no k)))"
    and m3: "map_of fs3 = (if 5 \<le> k
                          then ((map_of (files ?hB))(pp := None, p \<mapsto> File ?body, out \<mapsto> File (merged @ ?body)))
                                 (pruned_chunk p k := None)
                          else (map_of (files ?hB))(pp := None, p \<mapsto> File ?body, out \<mapsto> File (merged @ ?body)))"
    by auto
  have mm: "(map_of (files ?hB))(pp := None) = map_of fs0"
    using free by (auto simp: m2' fun_eq_iff)
  have m3': "map_of fs3 = (if 5 \<le> k
                          then ((map_of fs0)(p \<mapsto> File ?body, out \<mapsto> File (merged @ ?body)))
                                 (pruned_chunk p k := None)
                          else (map_of fs0)(p \<mapsto> File ?body, out \<mapsto> File (merged @ ?body)))"
    unfolding m3 mm ..
  let ?hD = "respond_201 (?hB\<lparr>self_target_file := Some \<lparr>fo_path = pp, fo_closed = True\<rparr>,
                           files := fs3,
                           store := AList.update upload (urec\<lparr>rows := rows urec @ [(k, length ?body)]\<rparr>) (store ?hB)\<rparr>)
                        (J_chunk filename upload (Some (Chunk_no k)))"
  have run: "run_request ev rq chunks None ?h0 = on_finish ev rq (patch None ev ?hB)"
    unfolding run_request_def Let_def prep rc
    by (simp add: pa new_handler_def)
  have fin: "on_finish ev rq ?hD = ?hD"
    by (simp add: on_finish_def respond_201_def new_handler_def)
  have all: "run_request ev rq chunks None ?h0 = ?hD"
    by (simp only: run pt3 fin)
  show "status_code (run_request ev rq chunks None ?h0) = 201"
    unfolding all by (simp add: respond_201_def)
  show "written (run_request ev rq chunks None ?h0) = [J_chunk filename upload (Some (Chunk_no k))]"
    unfolding all by (simp add: respond_201_def new_handler_def)
  show "map_of (files (run_request ev rq chunks None ?h0))
           = (if 5 \<le> k
              then ((map_of fs0)(p \<mapsto> File ?body, out \<mapsto> File (merged @ ?body)))
                     (pruned_chunk p k := None)
              else (map_of fs0)(p \<mapsto> File ?body, out \<mapsto> File (merged @ ?body)))"
    unfolding all by (simp add: respond_201_def m3')
  show "store (run_request ev rq chunks None ?h0)
           = AList.update upload (urec\<lparr>rows := rows urec @ [(k, length ?body)]\<rparr>) rdb0"
    unfolding all by (simp add: respond_201_def new_handler_def)
qed

text \<open>
  A chunk that is not the next one is refused: when the highest completed chunk on disk
  is \<open>m\<close> and \<open>k\<close> is not \<open>m + 1\<close>, the handler answers 200 with
  \<open>chunk_order_incorrect\<close>, the proxy turns that into 400, and neither the files nor the
  store change. The first hypotheses say that the request reaches the order check.
\<close>

lemma out_of_order_chunk_is_refused:
  assumes pa: "rq_method rq = PATCH" and tok: "rq_token rq = Auth_ok u" and ten: "rq_tenant_valid rq"
    and ct: "rq_content_type rq = Some ct"
    and fn: "ul_check_filename ev (rq_uri_filename rq) = Some filename"
    and ch: "rq_chunk rq = Some cs" and k: "py_int cs = Some k" "1 < k"
    and id: "rq_id rq = Some upload" and grp: "rq_group rq = Some g"
    and fresh: "\<not> lexists fs0 (chunk_file_name filename cs)"
    and ls: "os_listdir fs0 (join_path (project_dir ev) upload) = Inr names"
    and srt: "sorts_by_chunk_number (natural_sort ev) names"
    and m: "highest_chunk_on_disk fs0 (join_path (project_dir ev) upload) = Some m"
    and bad: "k \<noteq> m + 1"
    and h': "h' = run_request ev rq chunks cf (new_handler fs0 rdb0)"
  shows "client_response PATCH h' = (400, [J_message ''chunk_order_incorrect''])
       \<and> status_code h' = 200 \<and> files h' = fs0 \<and> store h' = rdb0"
proof -
  note lm = last_chunk_is_highest[OF ls srt m]
  note r = refused_run[OF pa tok ten ct fn ch k id grp fresh lm bad, of chunks cf rdb0]
  show ?thesis
    unfolding h' r by (simp add: client_response_def proxy_relay_def new_handler_def)
qed

text \<open>
  Chunk 4 sent to the upload whose chunks 1 and 2 are on disk: the hypotheses of the
  lemma hold there, and the request is refused.
\<close>

lemma out_of_order_chunk_is_refused_example:
  "client_response PATCH (run_request up_env (chunk_request ''4'') [(''CC'', False)] None
       (new_handler disk_two_chunks store_two_chunks)) = (400, [J_message ''chunk_order_incorrect''])
   \<and> files (run_request up_env (chunk_request ''4'') [(''CC'', False)] None
       (new_handler disk_two_chunks store_two_chunks)) = disk_two_chunks
   \<and> store (run_request up_env (chunk_request ''4'') [(''CC'', False)] None
       (new_handler disk_two_chunks store_two_chunks)) = store_two_chunks"
proof -
  have c: "rq_method (chunk_request ''4'') = PATCH" "rq_token (chunk_request ''4'') = Auth_ok ''alice''"
    "rq_tenant_valid (chunk_request ''4'')"
    "rq_content_type (chunk_request ''4'') = Some ''application/octet-stream''"
    "ul_check_filename up_env (rq_uri_filename (chunk_request ''4'')) = Some ''x.bin''"
    "rq_chunk (chunk_request ''4'') = Some ''4''"
    "rq_id (chunk_request ''4'') = Some ''U''" "rq_group (chunk_request ''4'') = Some ''p11-member-group''"
    by (simp_all add: chunk_request_def up_env_def)
  have k4: "py_int ''4'' = Some 4" "(1::int) < 4" by code_simp+
  have f4: "\<not> lexists disk_two_chunks (chunk_file_name ''x.bin'' ''4'')" by code_simp
  have ls: "os_listdir disk_two_chunks (join_path (project_dir up_env) ''U'')
              = Inr [''x.bin.chunk.1'', ''x.bin.chunk.2'']" by code_simp
  have srt: "sorts_by_chunk_number (natural_sort up_env) [''x.bin.chunk.1'', ''x.bin.chunk.2'']"
    by code_simp
  have m: "highest_chunk_on_disk disk_two_chunks (join_path (project_dir up_env) ''U'') = Some 2"
    by code_simp
  have ne: "(4::int) \<noteq> 2 + 1" by simp
  show ?thesis
    using out_of_order_chunk_is_refused[OF c(1-6) k4 c(7,8) f4 ls srt m ne refl,
            of "[(''CC'', False)]" None store_two_chunks]
    by blast
qed

text \<open>
  A chunk after the first whose file is in the directory of the upload is such a chunk:
  its number is at most the highest on disk.
\<close>

lemma duplicate_later_chunk_is_refused:
  assumes pa: "rq_method rq = PATCH" and tok: "rq_token rq = Auth_ok u" and ten: "rq_tenant_valid rq"
    and ct: "rq_content_type rq = Some ct"
    and fn: "ul_check_filename ev (rq_uri_filename rq) = Some filename"
    and ch: "rq_chunk rq = Some cs" and k: "py_int cs = Some k" "1 < k"
    and id: "rq_id rq = Some upload" and grp: "rq_group rq = Some g"
    and fresh: "\<not> lexists fs0 (chunk_file_name filename cs)"
    and ls: "os_listdir fs0 (join_path (project_dir ev) upload) = Inr names"
    and srt: "sorts_by_chunk_number (natural_sort ev) names"
    and m: "highest_chunk_on_disk fs0 (join_path (project_dir ev) upload) = Some m"
    and dup: "chunk_file_name filename cs \<in> set (completed_chunks names)"
    and num: "chunk_number (chunk_file_name filename cs) = Some k"
    and h': "h' = run_request ev rq chunks cf (new_handler fs0 rdb0)"
  shows "client_response PATCH h' = (400, [J_message ''chunk_order_incorrect''])
       \<and> status_code h' = 200 \<and> files h' = fs0 \<and> store h' = rdb0"
proof -
  let ?nums = "map chunk_number (completed_chunks names)"
  have mx: "m = Max (set (map the ?nums))"
    using m ls by (auto simp: highest_chunk_on_disk_def Let_def split: if_splits)
  have "k \<in> set (map the ?nums)" using dup num by force
  then have "k \<le> m" unfolding mx by (intro Max_ge) auto
  then have bad: "k \<noteq> m + 1" by simp
  show ?thesis
    by (rule out_of_order_chunk_is_refused[OF pa tok ten ct fn ch k id grp fresh ls srt m bad h'])
qed

text \<open>
  C1 (resumable monotonicity): when the completed chunks on disk reach chunk \<open>m\<close>, a
  \<open>PATCH\<close> with chunk \<open>k > 1\<close> succeeds if and only if \<open>k = m + 1\<close>, and is refused with
  \<open>chunk_order_incorrect\<close> otherwise. The refusal holds (\<open>out_of_order_chunk_is_refused\<close>),
  and the next chunk is merged when nothing is in its way (\<open>accepted_run\<close>). But the
  handler itself leaves states in which the next chunk does not succeed. Chunk 5 whose
  copy breaks is rolled back and answered 201, and \<open>merge_resumables\<close> still removes
  chunk 1; the highest chunk on disk is 4 as before. Chunk 5 sent again, with no fault,
  is appended to the merged file and recorded in the store, then the removal of chunk 1
  raises: the client gets 500 for the chunk that is \<open>m + 1\<close>.
\<close>

theorem next_chunk_after_rolled_back_merge_is_answered_500:
  "client_response PATCH after_failed_merge = (201, [J_chunk ''x.bin'' ''U'' (Some (Chunk_no 5))])
   \<and> files after_failed_merge
       = [(''/p11'', Dir), (''/p11/U'', Dir),
          (''/p11/U/x.bin.chunk.2'', File ''B''), (''/p11/U/x.bin.chunk.3'', File ''C''),
          (''/p11/U/x.bin.chunk.4'', File ''D''), (''/p11/x.bin.U'', File ''ABCD'')]
   \<and> store after_failed_merge = store_four_chunks
   \<and> highest_chunk_on_disk (files after_failed_merge) (join_path (project_dir up_env) ''U'') = Some 4
   \<and> rq_chunk (chunk_request ''5'') = Some ''5'' \<and> py_int ''5'' = Some (4 + 1)
   \<and> client_response PATCH after_retry = (500, [Error_page])
   \<and> files after_retry
       = [(''/p11'', Dir), (''/p11/U'', Dir),
          (''/p11/U/x.bin.chunk.2'', File ''B''), (''/p11/U/x.bin.chunk.3'', File ''C''),
          (''/p11/U/x.bin.chunk.4'', File ''D''), (''/p11/x.bin.U'', File ''ABCDEE''),
          (''/p11/U/x.bin.chunk.5'', File ''EE'')]
   \<and> resumable_db_get_total_size (store after_failed_merge) ''U'' = 4
   \<and> resumable_db_get_total_size (store after_retry) ''U'' = 6"
  by code_simp

text \<open>
  C8: a chunk request whose chunk file is already on disk fails with status 400, and
  the chunk is not appended to the merged file. For a chunk after the first this is what
  the order check does (\<open>duplicate_later_chunk_is_refused\<close>). The check that
  \<open>handle_resumable_request\<close> makes for an uploaded chunk looks up \<open>filename.chunk.n\<close> as
  it stands, not in the directory of the upload, and does not find the chunk that is
  there. The first chunk of upload \<open>U\<close> sent again is answered 201: a new upload \<open>V\<close> is
  made, with its own directory, merged file and entry in the store.
\<close>

theorem duplicate_first_chunk_is_answered_201:
  "map_of disk_two_chunks (join_path (project_dir up_env) (join_path ''U'' (chunk_file_name ''x.bin'' ''1'')))
     = Some (File ''AAA'')
   \<and> \<not> lexists disk_two_chunks (chunk_file_name ''x.bin'' ''1'')
   \<and> rq_chunk (chunk_request ''1'') = Some ''1'' \<and> rq_id (chunk_request ''1'') = Some ''U''
   \<and> client_response PATCH (run_request up_env (chunk_request ''1'') [(''AAA'', False)] None
        (new_handler disk_two_chunks store_two_chunks))
       = (201, [J_chunk ''x.bin'' ''V'' (Some (Chunk_no 1))])
   \<and> files (run_request up_env (chunk_request ''1'') [(''AAA'', False)] None
        (new_handler disk_two_chunks store_two_chunks))
       = disk_two_chunks @ [(''/p11/V'', Dir), (''/p11/V/x.bin.chunk.1'', File ''AAA''),
                            (''/p11/x.bin.V'', File ''AAA'')]
   \<and> store (run_request up_env (chunk_request ''1'') [(''AAA'', False)] None
        (new_handler disk_two_chunks store_two_chunks))
       = store_two_chunks @ [(''V'', \<lparr>owner = ''alice'', ugroup = ''p11-member-group'',
                                      rows = [(1, 3)]\<rparr>)]"
  by code_simp

text \<open>
  The second chunk of the same upload sent again is refused by the order check, and
  nothing changes.
\<close>

lemma duplicate_second_chunk_is_answered_400:
  "client_response PATCH (run_request up_env (chunk_request ''2'') [(''BB'', False)] None
        (new_handler disk_two_chunks store_two_chunks))
       = (400, [J_message ''chunk_order_incorrect''])
   \<and> files (run_request up_env (chunk_request ''2'') [(''BB'', False)] None
        (new_handler disk_two_chunks store_two_chunks)) = disk_two_chunks
   \<and> store (run_request up_env (chunk_request ''2'') [(''BB'', False)] None
        (new_handler disk_two_chunks store_two_chunks)) = store_two_chunks"
  by code_simp

text \<open>
  C5: when the copy of a chunk into the merged file fails, the merged file is cut back,
  the chunk removed, nothing recorded, and the client gets an error. The first three
  happen; the error is swallowed unless the rollback itself fails. Chunk 3 whose copy
  breaks after one byte: files and store are what they were, and the answer is 201 with
  \<open>max_chunk\<close> 3.
\<close>

theorem failed_merge_is_answered_201:
  "run_request up_env (chunk_request ''3'') [(''CC'', False)] (Some 1)
       (new_handler disk_two_chunks store_two_chunks)
   = (new_handler disk_two_chunks store_two_chunks)
       \<lparr>status_code := 201, written := [J_chunk ''x.bin'' ''U'' (Some (Chunk_no 3))],
        finished := True, self_resumable_is_complete := False,
        self_target_file := Some \<lparr>fo_path = ''/p11/U/x.bin.chunk.3.u3.part'', fo_closed = True\<rparr>,
        self_path := Some ''/p11/U/x.bin.chunk.3.u3.part'',
        self_path_part := Some ''/p11/U/x.bin.chunk.3'',
        self_chunk_order_correct := Some True, self_chunk_num := Some (Chunk_no 3),
        self_upload_id := Some ''U''\<rparr>"
  by code_simp

section \<open>Information about resumable uploads\<close>

text \<open>
  The repair of a torn merge. When the merged file is shorter than the total of the
  store by no more than the last chunk, the merged file is cut to the total minus the
  size of the last chunk and the last chunk is appended again; the merged file then has
  the size that the store records.
\<close>

lemma repair_restores_total:
  assumes ne: "chunks \<noteq> []"
    and lc: "map_of fs0 (last chunks) = Some (File c)"
    and mf: "map_of fs0 merged_file = Some (File mb)"
    and neq: "merged_file \<noteq> last chunks"
    and lt: "length mb < tot" and deficit: "tot - length mb \<le> length c"
    and le: "length c \<le> tot"
  shows "\<exists>fs1. repair_inconsistent_resumable mt fs0 merged_file chunks (length mb) tot
                 = (Inr (R_triple chunks None None), fs1)
              \<and> map_of fs1 = (map_of fs0)(merged_file \<mapsto> File (take (tot - length c) mb @ c))
              \<and> length (take (tot - length c) mb @ c) = tot"
proof -
  let ?t = "tot - length c"
  have tz: "int tot - int (length c) = int ?t" using le by simp
  have tk: "length (take ?t mb) = ?t" using deficit lt by simp
  let ?fs2 = "AList.update merged_file (File (take ?t mb)) fs0"
  let ?fs3 = "AList.update merged_file (File (take ?t mb @ c)) fs0"
  have op: "os_open fs0 merged_file Ab_plus = Inr fs0" using mf by (simp add: os_open_def)
  have tr0: "fs_truncate fs0 merged_file (int ?t) = Inr ?fs2"
    using mf tk by (simp add: fs_truncate_def)
  have tr: "fs_truncate fs0 merged_file (int tot - int (length c)) = Inr ?fs2"
    unfolding tz by (rule tr0)
  have l2: "map_of ?fs2 (last chunks) = Some (File c)" using lc neq by (simp add: update_conv')
  have ap: "fs_append ?fs2 merged_file c = ?fs3" by (simp add: fs_append_def update_conv')
  have st: "os_stat mt ?fs3 merged_file
              = Inr \<lparr>st_size = length (take ?t mb @ c), st_mtime = mtime_of mt merged_file\<rparr>"
    by (simp add: os_stat_def update_conv')
  have len: "length (take ?t mb @ c) = tot" using tk le by simp
  have s0: "os_stat mt fs0 (last chunks)
              = Inr \<lparr>st_size = length c, st_mtime = mtime_of mt (last chunks)\<rparr>"
    using lc by (simp add: os_stat_def)
  have e: "tot - length c + length c = tot" using le by simp
  have cond: "int tot - int (length mb) \<le> int (length c)" using deficit lt by linarith
  have r: "repair_inconsistent_resumable mt fs0 merged_file chunks (length mb) tot
                 = (Inr (R_triple chunks None None), ?fs3)"
    unfolding repair_inconsistent_resumable_def Let_def
    using ne lt cond by (simp add: s0 op tr l2 ap st e)
  have m: "map_of ?fs3 = (map_of fs0)(merged_file \<mapsto> File (take ?t mb @ c))"
    by (simp add: update_conv')
  from r m len show ?thesis by blast
qed

text \<open>
  A query on the upload whose second chunk was torn: the merged file is repaired and the
  answer gives the total as the next offset.
\<close>

lemma torn_merge_is_repaired_by_query:
  "fst (resumables_get 1000 rs_env0 meta_two_uploads store_torn ''alice'' Some
          disk_torn ''/p11'' ''x.bin'' (Some id_older))
   = (200, Some \<lparr>ri_filename = Some ''x.bin'', ri_id = id_older, ri_chunk_size = Some 4,
                 ri_max_chunk = Some 2, ri_md5sum = Some ''md5:BBBB'',
                 ri_previous_offset = Some 3, ri_next_offset = Offset 7, ri_warning = None,
                 ri_group = Some ''p11-member-group''\<rparr>)
   \<and> map_of (snd (resumables_get 1000 rs_env0 meta_two_uploads store_torn ''alice'' Some
                    disk_torn ''/p11'' ''x.bin'' (Some id_older)))
        (merged_name ''/p11'' ''x.bin'' id_older) = Some (File ''AAABBBB'')"
  by code_simp

text \<open>
  When the merged file is larger than the total, no branch of the repair returns: the
  function ends without a value.
\<close>

lemma repair_returns_nothing_when_merged_is_larger:
  assumes "chunks \<noteq> []" and "map_of fs0 (last chunks) = Some (File c)"
    and "tot < merged_size"
  shows "repair_inconsistent_resumable mt fs0 merged_file chunks merged_size tot = (Inr R_none, fs0)"
  using assms unfolding repair_inconsistent_resumable_def Let_def
  by (simp add: os_stat_def)

text \<open>
  \<open>info\<close> calls itself after a repair without the recommendation of the repair, so its
  tuple never carries a recommendation or a warning, and the answer to a query never
  has \<open>end\<close> as its next offset.
\<close>

lemma info_gives_no_recommendation:
  "info depth ev mt rdb0 resumable_dir proj fs0 chunks
     = (Inr (Some (sz, num, md, prev, nxt, r, w, fname)), fs1)
   \<Longrightarrow> r = None \<and> w = None"
proof (induction depth arbitrary: fs0 chunks)
  case 0
  then show ?case by simp
next
  case (Suc depth)
  from Suc.prems show ?case
    by (auto simp: Let_def
             split: sum.splits option.splits if_splits prod.splits repair_result.splits
             dest: Suc.IH)
qed

lemma get_resumable_info_never_says_end:
  assumes "get_resumable_info depth ev mt rdb0 usr fs0 proj filename upload_id = (Inr i, fs1)"
  shows "ri_next_offset i \<noteq> Offset_end"
  using assms unfolding get_resumable_info_def get_resumable_chunk_info_def
  by (auto simp: Let_def split: sum.splits option.splits if_splits prod.splits
           dest: info_gives_no_recommendation)

text \<open>
  C3: on a query, a merged file that is short by at most the last chunk is cut back and
  the last chunk appended again, which restores the total; a merged file that is larger
  than the total is answered with the recommendation \<open>end\<close>. The first half holds
  (\<open>repair_restores_total\<close>). The second does not: for the upload whose chunk was
  appended twice (merged file of 6 bytes, total 3) the repair returns nothing, unpacking
  that fails, and the answer is 200 with every field of the chunk empty and no \<open>end\<close>.
\<close>

theorem oversized_merged_file_is_not_reported_as_end:
  "fst (resumables_get 1000 rs_env0 meta_two_uploads store_one_chunk ''alice'' Some
          disk_double_append ''/p11'' ''x.bin'' (Some id_older))
   = (200, Some \<lparr>ri_filename = None, ri_id = id_older, ri_chunk_size = None,
                 ri_max_chunk = None, ri_md5sum = None, ri_previous_offset = None,
                 ri_next_offset = No_offset, ri_warning = None,
                 ri_group = Some ''p11-member-group''\<rparr>)"
  by code_simp

text \<open>
  C4: without an upload id the candidates are the directories of the user that exist and
  are named by a UUID, sorted by modification time, latest first, and the most recent
  one whose first chunk matches the file name is chosen. The candidates are sorted by
  \<open>st_size\<close> of the directory instead: of the two uploads of \<open>x.bin\<close> the one modified
  earlier, whose directory is the larger, is chosen.
\<close>

theorem discovery_sorts_by_directory_size_not_mtime:
  "mtime_of meta_two_uploads (join_path ''/p11'' id_older)
     < mtime_of meta_two_uploads (join_path ''/p11'' id_newer)
   \<and> find_relevant_resumable_dir rs_env0 meta_two_uploads disk_two_uploads store_two_uploads
        ''alice'' ''/p11'' ''x.bin'' None = Inr (Some id_older)"
  by code_simp


end
